theory Spec2Isabelle
  imports Main "HOL-Library.Finite_Map" "HOL-Library.Word" "HOL-Library.List_Lexorder"
    "HOL-Library.Char_ord"
begin

section \<open>Matching strategies and matcher value objects\<close>

text \<open>
  \<^verbatim>\<open>URLMatchingStrategy\<close> and \<^verbatim>\<open>ParamMatchingStrategy\<close> are string types of the
  source; their constants are string literals.
\<close>

type_synonym URLMatchingStrategy = string
type_synonym ParamMatchingStrategy = string

definition ScenarioStateStarted :: string where
  "ScenarioStateStarted = ''Started''"

definition ParamEqualTo :: ParamMatchingStrategy where
  "ParamEqualTo = ''equalTo''"

definition ParamMatches :: ParamMatchingStrategy where
  "ParamMatches = ''matches''"

definition ParamContains :: ParamMatchingStrategy where
  "ParamContains = ''contains''"

definition ParamEqualToXml :: ParamMatchingStrategy where
  "ParamEqualToXml = ''equalToXml''"

definition ParamEqualToJson :: ParamMatchingStrategy where
  "ParamEqualToJson = ''equalToJson''"

definition ParamMatchesXPath :: ParamMatchingStrategy where
  "ParamMatchesXPath = ''matchesXPath''"

definition ParamMatchesJsonPath :: ParamMatchingStrategy where
  "ParamMatchesJsonPath = ''matchesJsonPath''"

definition ParamAbsent :: ParamMatchingStrategy where
  "ParamAbsent = ''absent''"

definition ParamDoesNotMatch :: ParamMatchingStrategy where
  "ParamDoesNotMatch = ''doesNotMatch''"

definition URLEqualToRule :: URLMatchingStrategy where
  "URLEqualToRule = ''url''"

definition URLPathEqualToRule :: URLMatchingStrategy where
  "URLPathEqualToRule = ''urlPath''"

definition URLPathMatchingRule :: URLMatchingStrategy where
  "URLPathMatchingRule = ''urlPathPattern''"

definition URLMatchingRule :: URLMatchingStrategy where
  "URLMatchingRule = ''urlPattern''"

text \<open>The two matcher structs. Both have the fields \<^verbatim>\<open>strategy\<close> and \<^verbatim>\<open>value\<close>.\<close>

record URLMatcher =
  strategy :: URLMatchingStrategy
  "value" :: string

record ParamMatcher =
  strategy :: ParamMatchingStrategy
  "value" :: string

text \<open>The accessor methods \<^verbatim>\<open>Strategy()\<close> and \<^verbatim>\<open>Value()\<close> of each struct.\<close>

definition URLMatcher_Strategy :: "URLMatcher \<Rightarrow> URLMatchingStrategy" where
  "URLMatcher_Strategy m = URLMatcher.strategy m"

definition URLMatcher_Value :: "URLMatcher \<Rightarrow> string" where
  "URLMatcher_Value m = URLMatcher.value m"

definition ParamMatcher_Strategy :: "ParamMatcher \<Rightarrow> ParamMatchingStrategy" where
  "ParamMatcher_Strategy m = ParamMatcher.strategy m"

definition ParamMatcher_Value :: "ParamMatcher \<Rightarrow> string" where
  "ParamMatcher_Value m = ParamMatcher.value m"

definition URLEqualTo :: "string \<Rightarrow> URLMatcher" where
  "URLEqualTo url = \<lparr>URLMatcher.strategy = URLEqualToRule, value = url\<rparr>"

definition URLPathEqualTo :: "string \<Rightarrow> URLMatcher" where
  "URLPathEqualTo url = \<lparr>URLMatcher.strategy = URLPathEqualToRule, value = url\<rparr>"

definition URLPathMatching :: "string \<Rightarrow> URLMatcher" where
  "URLPathMatching url = \<lparr>URLMatcher.strategy = URLPathMatchingRule, value = url\<rparr>"

definition URLMatching :: "string \<Rightarrow> URLMatcher" where
  "URLMatching url = \<lparr>URLMatcher.strategy = URLMatchingRule, value = url\<rparr>"

definition EqualTo :: "string \<Rightarrow> ParamMatcher" where
  "EqualTo param = \<lparr>ParamMatcher.strategy = ParamEqualTo, value = param\<rparr>"

definition Matching :: "string \<Rightarrow> ParamMatcher" where
  "Matching param = \<lparr>ParamMatcher.strategy = ParamMatches, value = param\<rparr>"

definition Contains :: "string \<Rightarrow> ParamMatcher" where
  "Contains param = \<lparr>ParamMatcher.strategy = ParamContains, value = param\<rparr>"

definition EqualToXml :: "string \<Rightarrow> ParamMatcher" where
  "EqualToXml param = \<lparr>ParamMatcher.strategy = ParamEqualToXml, value = param\<rparr>"

definition EqualToJson :: "string \<Rightarrow> ParamMatcher" where
  "EqualToJson param = \<lparr>ParamMatcher.strategy = ParamEqualToJson, value = param\<rparr>"

definition MatchingXPath :: "string \<Rightarrow> ParamMatcher" where
  "MatchingXPath param = \<lparr>ParamMatcher.strategy = ParamMatchesXPath, value = param\<rparr>"

definition MatchingJsonPath :: "string \<Rightarrow> ParamMatcher" where
  "MatchingJsonPath param = \<lparr>ParamMatcher.strategy = ParamMatchesJsonPath, value = param\<rparr>"

definition NotMatching :: "string \<Rightarrow> ParamMatcher" where
  "NotMatching param = \<lparr>ParamMatcher.strategy = ParamDoesNotMatch, value = param\<rparr>"

text \<open>
  A run of the code ends in a panic, in an error of the encoder, or in a result.
\<close>

datatype error = Panic | UnsupportedTypeError

text \<open>
  The URL matcher of a rule has an interface type, but the only assignment to it, in
  \<^verbatim>\<open>NewStubRule\<close>, stores a \<^verbatim>\<open>URLMatcher\<close> struct; in the zero rule it is \<^verbatim>\<open>nil\<close>
  (\<open>None\<close>).
\<close>

type_synonym URLMatcherInterface = "URLMatcher option"

text \<open>
  \<^verbatim>\<open>WithHeader\<close>, \<^verbatim>\<open>WithCookie\<close> and \<^verbatim>\<open>WithQueryParam\<close> accept any value of the
  interface type \<^verbatim>\<open>ParamMatcherInterface\<close>: the nil interface value, a \<^verbatim>\<open>ParamMatcher\<close>
  struct, a pointer to one (\<open>None\<close> is the nil pointer, which is a non-nil interface
  value), or a value of a type declared elsewhere. The code observes the value only by
  calling \<^verbatim>\<open>Strategy()\<close> and \<^verbatim>\<open>Value()\<close> once each, so a foreign implementation is
  given by what each of the two calls does: it returns a string, or it panics (\<open>None\<close>).
  The methods of a foreign implementation are taken to have no other effect.
\<close>

datatype ParamMatcherInterface =
    NilInterface
  | ParamMatcherValue ParamMatcher
  | ParamMatcherPointer "ParamMatcher option"
  | OtherImplementation "ParamMatchingStrategy option" "string option"

text \<open>
  A method call through the interface: on the nil interface and through a nil pointer
  it panics.
\<close>

fun ParamMatcherInterface_Strategy :: "ParamMatcherInterface \<Rightarrow> error + ParamMatchingStrategy" where
  "ParamMatcherInterface_Strategy NilInterface = Inl Panic"
| "ParamMatcherInterface_Strategy (ParamMatcherValue m) = Inr (ParamMatcher_Strategy m)"
| "ParamMatcherInterface_Strategy (ParamMatcherPointer None) = Inl Panic"
| "ParamMatcherInterface_Strategy (ParamMatcherPointer (Some m)) = Inr (ParamMatcher_Strategy m)"
| "ParamMatcherInterface_Strategy (OtherImplementation None v) = Inl Panic"
| "ParamMatcherInterface_Strategy (OtherImplementation (Some t) v) = Inr t"

fun ParamMatcherInterface_Value :: "ParamMatcherInterface \<Rightarrow> error + string" where
  "ParamMatcherInterface_Value NilInterface = Inl Panic"
| "ParamMatcherInterface_Value (ParamMatcherValue m) = Inr (ParamMatcher_Value m)"
| "ParamMatcherInterface_Value (ParamMatcherPointer None) = Inl Panic"
| "ParamMatcherInterface_Value (ParamMatcherPointer (Some m)) = Inr (ParamMatcher_Value m)"
| "ParamMatcherInterface_Value (OtherImplementation t None) = Inl Panic"
| "ParamMatcherInterface_Value (OtherImplementation t (Some v)) = Inr v"

section \<open>The stub rule and its builder methods\<close>

text \<open>
  A Go map is a finite map; a map-typed field may also be \<^verbatim>\<open>nil\<close> (\<open>None\<close>).
  \<^verbatim>\<open>int64\<close> is a 64-bit word, a pointer field is an option. A slice is a list
  (the \<^verbatim>\<open>nil\<close> slice is the empty list: the code only appends to it and takes its length).
\<close>

type_synonym 'v gomap = "(string, 'v) fmap option"

definition len_map :: "'v gomap \<Rightarrow> nat" where
  "len_map m = (case m of None \<Rightarrow> 0 | Some m' \<Rightarrow> fcard (fmdom m'))"

text \<open>The keys of a map; the nil map has none.\<close>

definition names :: "'v gomap \<Rightarrow> string set" where
  "names ms = (case ms of None \<Rightarrow> {} | Some m \<Rightarrow> fmdom' m)"

record request =
  urlMatcher :: URLMatcherInterface
  "method" :: string
  headers :: "ParamMatcherInterface gomap"
  queryParams :: "ParamMatcherInterface gomap"
  cookies :: "ParamMatcherInterface gomap"
  bodyPatterns :: "ParamMatcher list"

record response =
  body :: string
  headers :: "string gomap"
  status :: "64 word"

record StubRule =
  request :: request
  response :: response
  priority :: "64 word option"
  scenarioName :: "string option"
  requiredScenarioState :: "string option"
  newScenarioState :: "string option"

definition StatusOK :: "64 word" where
  "StatusOK = 200"

definition MethodGet :: string where
  "MethodGet = ''GET''"

definition MethodPost :: string where
  "MethodPost = ''POST''"

definition MethodPut :: string where
  "MethodPut = ''PUT''"

definition MethodDelete :: string where
  "MethodDelete = ''DELETE''"

text \<open>
  \<^verbatim>\<open>NewStubRule\<close> sets the URL matcher, the method and the status; every other field
  keeps the zero value of its type.
\<close>

definition NewStubRule :: "string \<Rightarrow> URLMatcher \<Rightarrow> StubRule" where
  "NewStubRule meth um =
     \<lparr>request = \<lparr>urlMatcher = Some um, method = meth, request.headers = None,
                  queryParams = None, cookies = None, bodyPatterns = []\<rparr>,
      response = \<lparr>body = [], response.headers = None, status = StatusOK\<rparr>,
      priority = None, scenarioName = None, requiredScenarioState = None,
      newScenarioState = None\<rparr>"

text \<open>
  The builder methods mutate the rule behind the receiver and return the receiver; here
  each takes the rule and returns the updated rule. The three methods that take a
  matcher interface store the argument as it is, whatever it holds.
\<close>

definition WithQueryParam :: "StubRule \<Rightarrow> string \<Rightarrow> ParamMatcherInterface \<Rightarrow> StubRule" where
  "WithQueryParam s param matcher =
     (let m = (case queryParams (request s) of None \<Rightarrow> fmempty | Some m' \<Rightarrow> m')
      in s\<lparr>request := (request s)\<lparr>queryParams := Some (fmupd param matcher m)\<rparr>\<rparr>)"

definition WithHeader :: "StubRule \<Rightarrow> string \<Rightarrow> ParamMatcherInterface \<Rightarrow> StubRule" where
  "WithHeader s header matcher =
     (let m = (case request.headers (request s) of None \<Rightarrow> fmempty | Some m' \<Rightarrow> m')
      in s\<lparr>request := (request s)\<lparr>request.headers := Some (fmupd header matcher m)\<rparr>\<rparr>)"

definition WithCookie :: "StubRule \<Rightarrow> string \<Rightarrow> ParamMatcherInterface \<Rightarrow> StubRule" where
  "WithCookie s cookie matcher =
     (let m = (case cookies (request s) of None \<Rightarrow> fmempty | Some m' \<Rightarrow> m')
      in s\<lparr>request := (request s)\<lparr>cookies := Some (fmupd cookie matcher m)\<rparr>\<rparr>)"

definition WithBodyPattern :: "StubRule \<Rightarrow> ParamMatcher \<Rightarrow> StubRule" where
  "WithBodyPattern s matcher =
     s\<lparr>request := (request s)\<lparr>bodyPatterns := bodyPatterns (request s) @ [matcher]\<rparr>\<rparr>"

definition WillReturn :: "StubRule \<Rightarrow> string \<Rightarrow> string gomap \<Rightarrow> 64 word \<Rightarrow> StubRule" where
  "WillReturn s b hs st =
     s\<lparr>response := (response s)\<lparr>body := b, response.headers := hs, status := st\<rparr>\<rparr>"

definition AtPriority :: "StubRule \<Rightarrow> 64 word \<Rightarrow> StubRule" where
  "AtPriority s p = s\<lparr>priority := Some p\<rparr>"

definition InScenario :: "StubRule \<Rightarrow> string \<Rightarrow> StubRule" where
  "InScenario s name = s\<lparr>scenarioName := Some name\<rparr>"

definition WhenScenarioStateIs :: "StubRule \<Rightarrow> string \<Rightarrow> StubRule" where
  "WhenScenarioStateIs s scenarioState = s\<lparr>requiredScenarioState := Some scenarioState\<rparr>"

definition WillSetStateTo :: "StubRule \<Rightarrow> string \<Rightarrow> StubRule" where
  "WillSetStateTo s scenarioState = s\<lparr>newScenarioState := Some scenarioState\<rparr>"

definition Post :: "URLMatcher \<Rightarrow> StubRule" where
  "Post urlMatchingPair = NewStubRule MethodPost urlMatchingPair"

definition Get :: "URLMatcher \<Rightarrow> StubRule" where
  "Get urlMatchingPair = NewStubRule MethodGet urlMatchingPair"

definition Delete :: "URLMatcher \<Rightarrow> StubRule" where
  "Delete urlMatchingPair = NewStubRule MethodDelete urlMatchingPair"

definition Put :: "URLMatcher \<Rightarrow> StubRule" where
  "Put urlMatchingPair = NewStubRule MethodPut urlMatchingPair"

section \<open>Serialization\<close>

subsection \<open>Strings as the encoder writes them\<close>

text \<open>
  A Go string is a sequence of bytes. \<^verbatim>\<open>json.Marshal\<close> writes a string, as a value or as
  the name of an object member, by decoding it rune by rune (\<^verbatim>\<open>utf8.DecodeRuneInString\<close>):
  a well-formed UTF-8 sequence is written so that a decoder reads the same bytes back,
  and every byte that does not start a well-formed sequence is written as the
  replacement character U+FFFD, whose UTF-8 form is the three bytes EF BF BD.

  \<open>rune_width s\<close> is the number of bytes of the well-formed sequence at the head of
  \<open>s\<close>, and 0 when there is none: one byte below 80; two bytes from C2 to DF; three
  bytes from E0 to EF, where E0 needs a second byte from A0 and ED one up to 9F; four
  bytes from F0 to F4, where F0 needs a second byte from 90 and F4 one up to 8F; every
  further byte of a sequence from 80 to BF.
\<close>

definition byte :: "char \<Rightarrow> nat" where
  "byte c = of_char c"

definition continuation :: "nat \<Rightarrow> nat \<Rightarrow> string \<Rightarrow> bool" where
  "continuation lo hi s = (case s of [] \<Rightarrow> False | c # _ \<Rightarrow> lo \<le> byte c \<and> byte c \<le> hi)"

definition rune_width :: "string \<Rightarrow> nat" where
  "rune_width s =
     (case s of
        [] \<Rightarrow> 0
      | c # cs \<Rightarrow>
          let b = byte c in
          if b < 0x80 then 1
          else if b < 0xC2 then 0
          else if b \<le> 0xDF then (if continuation 0x80 0xBF cs then 2 else 0)
          else if b \<le> 0xEF then
            (if continuation (if b = 0xE0 then 0xA0 else 0x80)
                  (if b = 0xED then 0x9F else 0xBF) cs \<and>
                continuation 0x80 0xBF (drop 1 cs)
             then 3 else 0)
          else if b \<le> 0xF4 then
            (if continuation (if b = 0xF0 then 0x90 else 0x80)
                  (if b = 0xF4 then 0x8F else 0xBF) cs \<and>
                continuation 0x80 0xBF (drop 1 cs) \<and> continuation 0x80 0xBF (drop 2 cs)
             then 4 else 0)
          else 0)"

definition replacement :: string where
  "replacement = [CHR 0xEF, CHR 0xBF, CHR 0xBD]"

text \<open>
  \<open>coerce_from k s\<close> copies the next \<open>k\<close> bytes, the rest of a sequence already
  found well-formed, and then goes on rune by rune; \<open>coerce s\<close> is the string a decoder
  reads back from what the encoder writes for \<open>s\<close>. A string is valid UTF-8 when
  every rune of it is well-formed.
\<close>

fun coerce_from :: "nat \<Rightarrow> string \<Rightarrow> string" where
  "coerce_from k [] = []"
| "coerce_from (Suc k) (c # cs) = c # coerce_from k cs"
| "coerce_from 0 (c # cs) =
     (case rune_width (c # cs) of
        0 \<Rightarrow> replacement @ coerce_from 0 cs
      | Suc w \<Rightarrow> c # coerce_from w cs)"

definition coerce :: "string \<Rightarrow> string" where
  "coerce s = coerce_from 0 s"

fun valid_from :: "nat \<Rightarrow> string \<Rightarrow> bool" where
  "valid_from k [] = True"
| "valid_from (Suc k) (c # cs) = valid_from k cs"
| "valid_from 0 (c # cs) =
     (case rune_width (c # cs) of
        0 \<Rightarrow> False
      | Suc w \<Rightarrow> valid_from w cs)"

definition valid_utf8 :: "string \<Rightarrow> bool" where
  "valid_utf8 s = valid_from 0 s"

subsection \<open>The encoder's input and output\<close>

text \<open>
  \<^verbatim>\<open>MarshalJSON\<close> hands a value to \<^verbatim>\<open>json.Marshal\<close> of the Go standard library. The
  kinds of Go values that can occur inside a \<^verbatim>\<open>map[string]interface{}\<close> are modelled
  by \<open>goval\<close>: strings, 64-bit integers, pointers (\<open>None\<close> is the nil pointer), slices,
  string-keyed maps (\<open>None\<close> is the nil map), structs as the list of their fields in
  declaration order, each with its JSON name and its \<^verbatim>\<open>omitempty\<close> flag, and, standing
  for the kinds the encoder rejects, channels.

  The result is the JSON document as a decoder reads it, as a tree. An object is the
  list of its members in the order in which the encoder writes them: the fields of a
  struct in declaration order, the entries of a map sorted by their keys as byte
  strings. The names of a map's entries are written like any string, so two keys that
  differ only in ill-formed bytes give two members of the same name.
\<close>

datatype json =
    JNull
  | JString string
  | JNumber int
  | JArray "json list"
  | JObject "(string \<times> json) list"

datatype goval =
    GoString string
  | GoInt64 "64 word"
  | GoPointer "goval option"
  | GoSlice "goval list"
  | GoMap "goval gomap"
  | GoStruct "field list"
  | GoChan
and field = Field string bool goval

text \<open>
  The encoder's notion of an empty value, which \<^verbatim>\<open>omitempty\<close> leaves out: zero, the
  nil pointer, and a string, slice or map of length zero. A struct is never empty.
\<close>

fun isEmptyValue :: "goval \<Rightarrow> bool" where
  "isEmptyValue (GoString s) = (length s = 0)"
| "isEmptyValue (GoInt64 i) = (i = 0)"
| "isEmptyValue (GoPointer p) = (p = None)"
| "isEmptyValue (GoSlice xs) = (length xs = 0)"
| "isEmptyValue (GoMap m) = (len_map m = 0)"
| "isEmptyValue (GoStruct fs) = False"
| "isEmptyValue GoChan = False"

text \<open>
  Encoding the elements of a slice or the members of an object fails when one of them
  fails; the only error the encoder raises here is the one for an unsupported type.
\<close>

definition encode_elems :: "(error + json) list \<Rightarrow> error + json" where
  "encode_elems rs =
     (if list_all (\<lambda>r. \<not> isl r) rs then Inr (JArray (map projr rs))
      else Inl UnsupportedTypeError)"

definition encode_members :: "(string \<times> (error + json)) list \<Rightarrow> error + json" where
  "encode_members rs =
     (if list_all (\<lambda>(name, r). \<not> isl r) rs
      then Inr (JObject (map (\<lambda>(name, r). (name, projr r)) rs))
      else Inl UnsupportedTypeError)"

primrec marshal :: "goval \<Rightarrow> error + json"
  and marshal_field :: "field \<Rightarrow> (string \<times> (error + json)) option" where
  "marshal (GoString s) = Inr (JString (coerce s))"
| "marshal (GoInt64 i) = Inr (JNumber (sint i))"
| "marshal (GoPointer p) = (case map_option marshal p of None \<Rightarrow> Inr JNull | Some r \<Rightarrow> r)"
| "marshal (GoSlice xs) = encode_elems (map marshal xs)"
| "marshal (GoMap m) =
     (case map_option (fmmap marshal) m of
        None \<Rightarrow> Inr JNull
      | Some rs \<Rightarrow>
          encode_members (map (\<lambda>(key, r). (coerce key, r)) (sorted_list_of_fmap rs)))"
| "marshal (GoStruct fs) = encode_members (List.map_filter (\<lambda>x. x) (map marshal_field fs))"
| "marshal GoChan = Inl UnsupportedTypeError"
| "marshal_field (Field name omitempty v) =
     (if omitempty \<and> isEmptyValue v then None else Some (name, marshal v))"

subsection \<open>The request as a generic map\<close>

text \<open>
  The body of each \<^verbatim>\<open>range\<close> loop of \<^verbatim>\<open>mapFrom\<close> builds the single-entry map
  \<^verbatim>\<open>{Strategy(): Value()}\<close> of one matcher. For a body pattern, a struct, the two calls
  return its fields; for a header, cookie or query parameter matcher they go through
  the interface, \<^verbatim>\<open>Strategy()\<close> first, and either may panic.
\<close>

definition bodyPatternEntry :: "ParamMatcher \<Rightarrow> goval" where
  "bodyPatternEntry bodyPattern =
     GoMap (Some (fmupd (ParamMatcher_Strategy bodyPattern)
                        (GoString (ParamMatcher_Value bodyPattern)) fmempty))"

definition paramEntry :: "ParamMatcherInterface \<Rightarrow> error + goval" where
  "paramEntry matcher =
     (case ParamMatcherInterface_Strategy matcher of
        Inl e \<Rightarrow> Inl e
      | Inr t \<Rightarrow>
          (case ParamMatcherInterface_Value matcher of
             Inl e \<Rightarrow> Inl e
           | Inr v \<Rightarrow> Inr (GoMap (Some (fmupd t (GoString v) fmempty)))))"

text \<open>
  A loop over a Go map visits every entry once, in no fixed order, and writes the
  entry's image under the same key into a fresh map; it panics as soon as a call on a
  matcher panics. The outcome does not depend on the order.
\<close>

definition rangeParams :: "(string, ParamMatcherInterface) fmap \<Rightarrow> error + (string, goval) fmap" where
  "rangeParams ms =
     (let rs = fmmap paramEntry ms
      in if fmpred (\<lambda>_ r. \<not> isl r) rs then Inr (fmmap projr rs)
         else Inl Panic)"

text \<open>
  One of the three blocks for headers, cookies and query parameters: when the map has
  entries, its image is stored in the request map under \<open>key\<close>.
\<close>

definition putParams ::
  "string \<Rightarrow> ParamMatcherInterface gomap \<Rightarrow> (string, goval) fmap \<Rightarrow> error + (string, goval) fmap" where
  "putParams key ms req =
     (if len_map ms > 0 then
        (case rangeParams (case ms of None \<Rightarrow> fmempty | Some m \<Rightarrow> m) of
           Inl e \<Rightarrow> Inl e
         | Inr params \<Rightarrow> Inr (fmupd key (GoMap (Some params)) req))
      else Inr req)"

text \<open>
  \<^verbatim>\<open>mapFrom\<close> receives a pointer to the request; it returns its result together with
  the request as it is after the call. In the map literal the entry written later wins
  when the two keys coincide. Calling \<^verbatim>\<open>Strategy()\<close> on a nil URL matcher panics.
\<close>

definition mapFrom :: "request \<Rightarrow> (error + (string, goval) fmap) \<times> request" where
  "mapFrom r =
     (case urlMatcher r of
        None \<Rightarrow> (Inl Panic, r)
      | Some u \<Rightarrow>
          let req0 = fmupd (URLMatcher_Strategy u) (GoString (URLMatcher_Value u))
                       (fmupd ''method'' (GoString (method r)) fmempty);
              req1 = (if length (bodyPatterns r) > 0
                      then fmupd ''bodyPatterns''
                             (GoSlice (map bodyPatternEntry (bodyPatterns r))) req0
                      else req0)
          in ((case putParams ''headers'' (request.headers r) req1 of
                 Inl e \<Rightarrow> Inl e
               | Inr req2 \<Rightarrow>
                   (case putParams ''cookies'' (cookies r) req2 of
                      Inl e \<Rightarrow> Inl e
                    | Inr req3 \<Rightarrow> putParams ''queryParameters'' (queryParams r) req3)),
              r))"

subsection \<open>The rule as a document\<close>

text \<open>
  The anonymous struct of \<^verbatim>\<open>MarshalJSON\<close> and its nested response struct, their zero
  values, and their field tags as the encoder sees them.
\<close>

record jsonResponse =
  Body :: string
  Headers :: "string gomap"
  Status :: "64 word"

record jsonStubRule =
  Priority :: "64 word option"
  ScenarioName :: "string option"
  RequiredScenarioScenarioState :: "string option"
  NewScenarioState :: "string option"
  Request :: "goval gomap"
  Response :: jsonResponse

definition jsonStubRule_zero :: jsonStubRule where
  "jsonStubRule_zero =
     \<lparr>Priority = None, ScenarioName = None, RequiredScenarioScenarioState = None,
      NewScenarioState = None, Request = None,
      Response = \<lparr>Body = [], Headers = None, Status = 0\<rparr>\<rparr>"

definition jsonResponse_goval :: "jsonResponse \<Rightarrow> goval" where
  "jsonResponse_goval r =
     GoStruct
       [Field ''body'' True (GoString (Body r)),
        Field ''headers'' True (GoMap (map_option (fmmap GoString) (Headers r))),
        Field ''status'' True (GoInt64 (Status r))]"

definition jsonStubRule_goval :: "jsonStubRule \<Rightarrow> goval" where
  "jsonStubRule_goval j =
     GoStruct
       [Field ''priority'' True (GoPointer (map_option GoInt64 (Priority j))),
        Field ''scenarioName'' True (GoPointer (map_option GoString (ScenarioName j))),
        Field ''requiredScenarioState'' True
          (GoPointer (map_option GoString (RequiredScenarioScenarioState j))),
        Field ''newScenarioState'' True (GoPointer (map_option GoString (NewScenarioState j))),
        Field ''request'' False (GoMap (Request j)),
        Field ''response'' False (jsonResponse_goval (Response j))]"

text \<open>
  \<^verbatim>\<open>MarshalJSON\<close> receives a pointer to the rule; it returns its result (the panic or
  the encoder's error on the left, the document on the right) together with the rule as
  it is after the call. The assignments to the local struct follow the source's order.
\<close>

definition MarshalJSON :: "StubRule \<Rightarrow> (error + json) \<times> StubRule" where
  "MarshalJSON s =
     (let j0 = jsonStubRule_zero;
          j1 = j0\<lparr>Priority := priority s\<rparr>;
          j2 = j1\<lparr>ScenarioName := scenarioName s\<rparr>;
          j3 = j2\<lparr>RequiredScenarioScenarioState := requiredScenarioState s\<rparr>;
          j4 = j3\<lparr>NewScenarioState := newScenarioState s\<rparr>;
          j5 = j4\<lparr>Response := (Response j4)\<lparr>Body := body (response s)\<rparr>\<rparr>;
          j6 = j5\<lparr>Response := (Response j5)\<lparr>Headers := response.headers (response s)\<rparr>\<rparr>;
          j7 = j6\<lparr>Response := (Response j6)\<lparr>Status := status (response s)\<rparr>\<rparr>;
          (res, r') = mapFrom (request s);
          s' = s\<lparr>request := r'\<rparr>
      in (case res of
            Inl e \<Rightarrow> (Inl e, s')
          | Inr req \<Rightarrow> (marshal (jsonStubRule_goval (j7\<lparr>Request := Some req\<rparr>)), s')))"

text \<open>The document a rule serializes to, when there is one.\<close>

definition document :: "StubRule \<Rightarrow> json option" where
  "document s = (case fst (MarshalJSON s) of Inl e \<Rightarrow> None | Inr d \<Rightarrow> Some d)"

text \<open>
  Reading a JSON object: \<open>member\<close> is the value of the first member of a given name
  (none when the object has no such member, or the value is no object), and
  \<open>members_named\<close> lists the values of all members of that name.
\<close>

fun member :: "json \<Rightarrow> string \<Rightarrow> json option" where
  "member (JObject ms) k = map_of ms k"
| "member _ k = None"

fun members_named :: "json \<Rightarrow> string \<Rightarrow> json list" where
  "members_named (JObject ms) k = map snd (filter (\<lambda>(name, v). name = k) ms)"
| "members_named _ k = []"

text \<open>The request and the response object of the document.\<close>

definition request_object :: "StubRule \<Rightarrow> json option" where
  "request_object s = (case document s of None \<Rightarrow> None | Some d \<Rightarrow> member d ''request'')"

definition response_object :: "StubRule \<Rightarrow> json option" where
  "response_object s = (case document s of None \<Rightarrow> None | Some d \<Rightarrow> member d ''response'')"

subsection \<open>Rules built through the public functions\<close>

text \<open>
  A rule that client code can hold comes from \<^verbatim>\<open>NewStubRule\<close> (or one of its four
  wrappers) followed by a sequence of builder calls. A call is recorded with its
  arguments; \<open>build\<close> runs a sequence of calls from left to right.
\<close>

datatype call =
    CallWithQueryParam string ParamMatcherInterface
  | CallWithHeader string ParamMatcherInterface
  | CallWithCookie string ParamMatcherInterface
  | CallWithBodyPattern ParamMatcher
  | CallWillReturn string "string gomap" "64 word"
  | CallAtPriority "64 word"
  | CallInScenario string
  | CallWhenScenarioStateIs string
  | CallWillSetStateTo string

fun apply_call :: "StubRule \<Rightarrow> call \<Rightarrow> StubRule" where
  "apply_call s (CallWithQueryParam param matcher) = WithQueryParam s param matcher"
| "apply_call s (CallWithHeader header matcher) = WithHeader s header matcher"
| "apply_call s (CallWithCookie cookie matcher) = WithCookie s cookie matcher"
| "apply_call s (CallWithBodyPattern matcher) = WithBodyPattern s matcher"
| "apply_call s (CallWillReturn b hs st) = WillReturn s b hs st"
| "apply_call s (CallAtPriority p) = AtPriority s p"
| "apply_call s (CallInScenario name) = InScenario s name"
| "apply_call s (CallWhenScenarioStateIs st) = WhenScenarioStateIs s st"
| "apply_call s (CallWillSetStateTo st) = WillSetStateTo s st"

definition build :: "string \<Rightarrow> URLMatcher \<Rightarrow> call list \<Rightarrow> StubRule" where
  "build meth um cs = foldl apply_call (NewStubRule meth um) cs"

text \<open>
  A matcher answers when its two method calls return: a struct, a non-nil pointer to
  one, or a foreign implementation neither of whose methods panics. A call passes a
  matcher when its interface argument, if it has one, answers.
\<close>

definition answers :: "ParamMatcherInterface \<Rightarrow> bool" where
  "answers h \<longleftrightarrow>
     \<not> isl (ParamMatcherInterface_Strategy h) \<and> \<not> isl (ParamMatcherInterface_Value h)"

fun passes_matcher :: "call \<Rightarrow> bool" where
  "passes_matcher (CallWithQueryParam param matcher) = answers matcher"
| "passes_matcher (CallWithHeader header matcher) = answers matcher"
| "passes_matcher (CallWithCookie cookie matcher) = answers matcher"
| "passes_matcher _ = True"

fun is_AtPriority :: "call \<Rightarrow> bool" where
  "is_AtPriority (CallAtPriority p) = True"
| "is_AtPriority _ = False"

subsection \<open>Closed forms\<close>

text \<open>
  The document in closed form, for the proofs below. \<open>opt_member\<close> is a member when
  there is a value for it; \<open>written\<close> lists the entries of a map as the members the
  encoder writes; \<open>matcher_json\<close> and \<open>iface_json\<close> are the single-member objects of a
  matcher; a request is serializable when its URL matcher is not nil and every stored
  header, cookie and query parameter matcher answers. The lemmas of the next section
  prove that \<open>MarshalJSON\<close> computes these forms.
\<close>

definition opt_member :: "string \<Rightarrow> json option \<Rightarrow> (string \<times> json) list" where
  "opt_member k vo = (case vo of None \<Rightarrow> [] | Some v \<Rightarrow> [(k, v)])"

definition put_opt :: "string \<Rightarrow> json option \<Rightarrow> (string, json) fmap \<Rightarrow> (string, json) fmap" where
  "put_opt k vo m = (case vo of None \<Rightarrow> m | Some v \<Rightarrow> fmupd k v m)"

definition written :: "(string, json) fmap \<Rightarrow> (string \<times> json) list" where
  "written m = map (\<lambda>(key, v). (coerce key, v)) (sorted_list_of_fmap m)"

definition matcher_json :: "ParamMatcher \<Rightarrow> json" where
  "matcher_json p =
     JObject [(coerce (ParamMatcher_Strategy p), JString (coerce (ParamMatcher_Value p)))]"

definition iface_json :: "ParamMatcherInterface \<Rightarrow> json" where
  "iface_json h =
     JObject [(coerce (projr (ParamMatcherInterface_Strategy h)),
               JString (coerce (projr (ParamMatcherInterface_Value h))))]"

definition params_json :: "ParamMatcherInterface gomap \<Rightarrow> json option" where
  "params_json ms =
     (if len_map ms > 0 then Some (JObject (written (fmmap iface_json (the ms)))) else None)"

definition all_answer :: "ParamMatcherInterface gomap \<Rightarrow> bool" where
  "all_answer ms = (case ms of None \<Rightarrow> True | Some m \<Rightarrow> fmpred (\<lambda>_ h. answers h) m)"

definition serializable :: "request \<Rightarrow> bool" where
  "serializable r \<longleftrightarrow>
     urlMatcher r \<noteq> None \<and> all_answer (request.headers r) \<and> all_answer (cookies r) \<and>
     all_answer (queryParams r)"

definition params_goval :: "(string, ParamMatcherInterface) fmap \<Rightarrow> goval" where
  "params_goval m = GoMap (Some (fmmap (\<lambda>h. projr (paramEntry h)) m))"

definition patterns_goval :: "ParamMatcher list \<Rightarrow> goval" where
  "patterns_goval ps = GoSlice (map bodyPatternEntry ps)"

definition request_json :: "request \<Rightarrow> URLMatcher \<Rightarrow> (string, json) fmap" where
  "request_json r u =
     put_opt ''queryParameters'' (params_json (queryParams r))
       (put_opt ''cookies'' (params_json (cookies r))
         (put_opt ''headers'' (params_json (request.headers r))
           (put_opt ''bodyPatterns''
              (if bodyPatterns r = [] then None
               else Some (JArray (map matcher_json (bodyPatterns r))))
              (fmupd (URLMatcher_Strategy u) (JString (coerce (URLMatcher_Value u)))
                 (fmupd ''method'' (JString (coerce (method r))) fmempty)))))"

definition response_json :: "jsonResponse \<Rightarrow> (string \<times> json) list" where
  "response_json r =
     opt_member ''body'' (if Body r = [] then None else Some (JString (coerce (Body r)))) @
     opt_member ''headers''
       (if len_map (Headers r) = 0 then None
        else Some (JObject (written (fmmap (\<lambda>v. JString (coerce v)) (the (Headers r)))))) @
     opt_member ''status''
       (if Status r = 0 then None else Some (JNumber (sint (Status r))))"

definition document_json :: "StubRule \<Rightarrow> URLMatcher \<Rightarrow> (string \<times> json) list" where
  "document_json s u =
     opt_member ''priority'' (map_option (\<lambda>p. JNumber (sint p)) (priority s)) @
     opt_member ''scenarioName'' (map_option (\<lambda>n. JString (coerce n)) (scenarioName s)) @
     opt_member ''requiredScenarioState''
       (map_option (\<lambda>n. JString (coerce n)) (requiredScenarioState s)) @
     opt_member ''newScenarioState''
       (map_option (\<lambda>n. JString (coerce n)) (newScenarioState s)) @
     [(''request'', JObject (written (request_json (request s) u))),
      (''response'',
       JObject (response_json
          \<lparr>Body = body (response s), Headers = response.headers (response s),
           Status = status (response s)\<rparr>))]"

text \<open>A string of bytes below 80 only.\<close>

definition ascii :: "string \<Rightarrow> bool" where
  "ascii s = list_all (\<lambda>c. byte c < 0x80) s"

section \<open>What serialization computes\<close>

subsection \<open>Strings and maps as the encoder writes them\<close>

lemma rune_width_ascii: "byte c < 0x80 \<Longrightarrow> rune_width (c # cs) = 1"
  by (simp add: rune_width_def)

lemma coerce_from_ascii: "ascii s \<Longrightarrow> coerce_from 0 s = s"
  by (induction s) (simp_all add: ascii_def rune_width_ascii)

lemma coerce_ascii: "ascii s \<Longrightarrow> coerce s = s"
  by (simp add: coerce_def coerce_from_ascii)

lemma valid_coerce_from: "valid_from k s \<Longrightarrow> coerce_from k s = s"
  by (induction k s rule: coerce_from.induct) (auto split: nat.splits)

lemma valid_utf8_coerce: "valid_utf8 s \<Longrightarrow> coerce s = s"
  by (simp add: valid_utf8_def coerce_def valid_coerce_from)

lemma ascii_valid_utf8: "ascii s \<Longrightarrow> valid_utf8 s"
  unfolding valid_utf8_def
  by (induction s) (simp_all add: ascii_def rune_width_ascii)

lemma rune_width_Suc_ascii:
  assumes "rune_width (c # cs) = Suc w" and "byte c < 0x80"
  shows "w = 0"
  using assms by (simp add: rune_width_ascii)

lemma coerce_from_eq_ascii: "ascii a \<Longrightarrow> coerce_from 0 k = a \<Longrightarrow> k = a"
proof (induction k arbitrary: a)
  case Nil
  then show ?case by simp
next
  case (Cons c cs)
  show ?case
  proof (cases "rune_width (c # cs)")
    case 0
    with Cons.prems show ?thesis
      by (auto simp: replacement_def ascii_def byte_def)
  next
    case (Suc w)
    with Cons.prems obtain a' where a: "a = c # a'" and r: "coerce_from w cs = a'"
      by auto
    with Cons.prems(1) have c: "byte c < 0x80" and a': "ascii a'"
      by (simp_all add: ascii_def)
    from Suc c have "w = 0" by (rule rune_width_Suc_ascii)
    with r a' Cons.IH [of a'] a show ?thesis by simp
  qed
qed

lemma coerce_eq_ascii: "ascii a \<Longrightarrow> coerce k = a \<Longrightarrow> k = a"
  by (simp add: coerce_def coerce_from_eq_ascii)

lemma coerce_eq_ascii_iff: "ascii a \<Longrightarrow> (coerce k = a) = (k = a)"
  using coerce_eq_ascii coerce_ascii by blast

lemma sorted_list_of_fmap_fmmap:
  "sorted_list_of_fmap (fmmap f m) = map (\<lambda>(k, v). (k, f v)) (sorted_list_of_fmap m)"
  unfolding sorted_list_of_fmap_def
  by (auto simp: comp_def fmlookup_dom_iff)

lemma distinct_sorted_list_of_fset: "distinct (sorted_list_of_fset S)"
  by (simp add: sorted_list_of_fset.rep_eq)

lemma distinct_sorted_list_of_fmap: "distinct (map fst (sorted_list_of_fmap m))"
  unfolding sorted_list_of_fmap_def
  by (simp add: comp_def distinct_sorted_list_of_fset)

lemma map_of_rename:
  assumes "\<forall>k\<in>fst ` set xs. (f k = a) = (k = a)"
  shows "map_of (map (\<lambda>(k, v). (f k, v)) xs) a = map_of xs a"
  using assms by (induction xs) auto

lemma map_of_written_ascii:
  assumes "ascii a"
  shows "map_of (written m) a = fmlookup m a"
proof -
  have "map_of (written m) a = map_of (sorted_list_of_fmap m) a"
    unfolding written_def
    by (rule map_of_rename) (simp add: coerce_eq_ascii_iff [OF assms])
  then show ?thesis by simp
qed

subsection \<open>The document in closed form\<close>

lemma sorted_list_of_fmap_single: "sorted_list_of_fmap (fmupd k v fmempty) = [(k, v)]"
  by (simp add: sorted_list_of_fmap_def sorted_list_of_fset.rep_eq)

lemma written_single: "written (fmupd k v fmempty) = [(coerce k, v)]"
  by (simp add: written_def sorted_list_of_fmap_single)

lemma in_sorted_list_of_fmap:
  "(k, v) \<in> set (sorted_list_of_fmap m) \<longleftrightarrow> fmlookup m k = Some v"
  using map_of_eq_Some_iff [OF distinct_sorted_list_of_fmap, of m k v] by simp

lemma marshal_GoMap:
  assumes "fmpred (\<lambda>_ v. \<not> isl (marshal v)) m"
  shows "marshal (GoMap (Some m)) = Inr (JObject (written (fmmap (\<lambda>v. projr (marshal v)) m)))"
proof -
  have "list_all (\<lambda>(name, r). \<not> isl r)
          (map (\<lambda>(key, r). (coerce key, r)) (sorted_list_of_fmap (fmmap marshal m)))"
    using assms
    by (auto simp: list_all_iff in_sorted_list_of_fmap fmpred_iff)
  then show ?thesis
    by (simp add: encode_members_def written_def sorted_list_of_fmap_fmmap case_prod_beta
        comp_def)
qed

lemma marshal_bodyPatternEntry: "marshal (bodyPatternEntry p) = Inr (matcher_json p)"
  unfolding bodyPatternEntry_def
  by (subst marshal_GoMap) (simp_all add: fmpred_upd fmmap_fmupd written_single matcher_json_def)

lemma isl_paramEntry: "isl (paramEntry h) = (\<not> answers h)"
  by (simp add: paramEntry_def answers_def split: sum.splits)

lemma marshal_paramEntry: "answers h \<Longrightarrow> marshal (projr (paramEntry h)) = Inr (iface_json h)"
  unfolding paramEntry_def answers_def iface_json_def
  by (cases "ParamMatcherInterface_Strategy h"; cases "ParamMatcherInterface_Value h")
    (simp_all add: marshal_GoMap fmpred_upd fmmap_fmupd written_single del: marshal.simps(5))

lemma rangeParams_eq:
  "rangeParams ms =
     (if fmpred (\<lambda>_ h. answers h) ms then Inr (fmmap (\<lambda>h. projr (paramEntry h)) ms)
      else Inl Panic)"
  unfolding rangeParams_def Let_def
  by (simp add: isl_paramEntry fmap.map_comp comp_def)

lemma len_map_0_all_answer: "len_map ms = 0 \<Longrightarrow> all_answer ms"
  by (cases ms) (auto simp: len_map_def all_answer_def fcard_0_eq fmpred_iff dest: fmdomI)

lemma putParams_eq:
  "putParams key ms req =
     (if all_answer ms then
        Inr (if len_map ms > 0 then fmupd key (params_goval (the ms)) req else req)
      else Inl Panic)"
proof (cases "len_map ms > 0")
  case False
  then show ?thesis using len_map_0_all_answer [of ms] by (simp add: putParams_def)
next
  case True
  then obtain m where "ms = Some m" by (cases ms) (simp_all add: len_map_def)
  with True show ?thesis
    by (simp add: putParams_def rangeParams_eq all_answer_def params_goval_def)
qed

lemma mapFrom_snd: "snd (mapFrom r) = r"
  by (simp add: mapFrom_def Let_def split: option.splits)

lemma mapFrom_panic: "\<not> serializable r \<Longrightarrow> fst (mapFrom r) = Inl Panic"
  by (auto simp: mapFrom_def Let_def putParams_eq serializable_def split: option.splits)

lemma marshal_patterns: "marshal (patterns_goval ps) = Inr (JArray (map matcher_json ps))"
  by (simp add: patterns_goval_def encode_elems_def list_all_iff marshal_bodyPatternEntry
      comp_def)

lemma marshal_params:
  assumes "fmpred (\<lambda>_ h. answers h) m"
  shows "marshal (params_goval m) = Inr (JObject (written (fmmap iface_json m)))"
proof -
  have ok: "fmpred (\<lambda>_ v. \<not> isl (marshal v)) (fmmap (\<lambda>h. projr (paramEntry h)) m)"
    using assms by (auto simp: fmpred_iff marshal_paramEntry)
  have "fmmap (\<lambda>v. projr (marshal v)) (fmmap (\<lambda>h. projr (paramEntry h)) m) = fmmap iface_json m"
    unfolding fmap.map_comp
    by (rule fmap.map_cong0) (use assms in \<open>auto simp: fmpred_iff marshal_paramEntry fmran'_alt_def\<close>)
  with marshal_GoMap [OF ok] show ?thesis
    by (simp add: params_goval_def)
qed

lemma putParams_marshal:
  assumes "all_answer ms" and "fmpred (\<lambda>_ v. \<not> isl (marshal v)) req"
  shows "\<exists>req'. putParams key ms req = Inr req' \<and> fmpred (\<lambda>_ v. \<not> isl (marshal v)) req' \<and>
           fmmap (\<lambda>v. projr (marshal v)) req' =
             put_opt key (params_json ms) (fmmap (\<lambda>v. projr (marshal v)) req)"
proof (cases "len_map ms > 0")
  case False
  with assms show ?thesis
    by (simp add: putParams_eq params_json_def put_opt_def)
next
  case True
  then obtain m where m: "ms = Some m" by (cases ms) (simp_all add: len_map_def)
  with assms(1) have "fmpred (\<lambda>_ h. answers h) m" by (simp add: all_answer_def)
  from marshal_params [OF this] True m assms show ?thesis
    by (simp add: putParams_eq params_json_def put_opt_def fmmap_fmupd fmpred_upd)
qed

lemma mapFrom_ok:
  assumes "urlMatcher r = Some u" and "serializable r"
  shows "\<exists>req. fst (mapFrom r) = Inr req \<and> fmpred (\<lambda>_ v. \<not> isl (marshal v)) req \<and>
           fmmap (\<lambda>v. projr (marshal v)) req = request_json r u"
proof -
  define req0 where "req0 = fmupd (URLMatcher_Strategy u) (GoString (URLMatcher_Value u))
                       (fmupd ''method'' (GoString (method r)) fmempty)"
  define req1 where "req1 = (if length (bodyPatterns r) > 0
                      then fmupd ''bodyPatterns'' (patterns_goval (bodyPatterns r)) req0
                      else req0)"
  have ok1: "fmpred (\<lambda>_ v. \<not> isl (marshal v)) req1"
    by (simp add: req1_def req0_def fmpred_upd marshal_patterns)
  have j1: "fmmap (\<lambda>v. projr (marshal v)) req1 =
      put_opt ''bodyPatterns''
              (if bodyPatterns r = [] then None
               else Some (JArray (map matcher_json (bodyPatterns r))))
              (fmupd (URLMatcher_Strategy u) (JString (coerce (URLMatcher_Value u)))
                 (fmupd ''method'' (JString (coerce (method r))) fmempty))"
    by (simp add: req1_def req0_def fmmap_fmupd marshal_patterns put_opt_def)
  from assms(2) have a: "all_answer (request.headers r)" "all_answer (cookies r)"
    "all_answer (queryParams r)"
    by (simp_all add: serializable_def)
  from putParams_marshal [OF a(1) ok1, of "''headers''"] obtain req2 where
    p2: "putParams ''headers'' (request.headers r) req1 = Inr req2" and
    ok2: "fmpred (\<lambda>_ v. \<not> isl (marshal v)) req2" and
    j2: "fmmap (\<lambda>v. projr (marshal v)) req2 =
           put_opt ''headers'' (params_json (request.headers r))
             (fmmap (\<lambda>v. projr (marshal v)) req1)"
    by blast
  from putParams_marshal [OF a(2) ok2, of "''cookies''"] obtain req3 where
    p3: "putParams ''cookies'' (cookies r) req2 = Inr req3" and
    ok3: "fmpred (\<lambda>_ v. \<not> isl (marshal v)) req3" and
    j3: "fmmap (\<lambda>v. projr (marshal v)) req3 =
           put_opt ''cookies'' (params_json (cookies r))
             (fmmap (\<lambda>v. projr (marshal v)) req2)"
    by blast
  from putParams_marshal [OF a(3) ok3, of "''queryParameters''"] obtain req4 where
    p4: "putParams ''queryParameters'' (queryParams r) req3 = Inr req4" and
    ok4: "fmpred (\<lambda>_ v. \<not> isl (marshal v)) req4" and
    j4: "fmmap (\<lambda>v. projr (marshal v)) req4 =
           put_opt ''queryParameters'' (params_json (queryParams r))
             (fmmap (\<lambda>v. projr (marshal v)) req3)"
    by blast
  have "fst (mapFrom r) =
          (case putParams ''headers'' (request.headers r) req1 of
             Inl e \<Rightarrow> Inl e
           | Inr req2 \<Rightarrow>
               (case putParams ''cookies'' (cookies r) req2 of
                  Inl e \<Rightarrow> Inl e
                | Inr req3 \<Rightarrow> putParams ''queryParameters'' (queryParams r) req3))"
    using assms(1)
    by (simp add: mapFrom_def Let_def req1_def req0_def patterns_goval_def)
  then have "fst (mapFrom r) = Inr req4"
    by (simp add: p2 p3 p4)
  moreover have "fmmap (\<lambda>v. projr (marshal v)) req4 = request_json r u"
    by (simp add: j4 j3 j2 j1 request_json_def)
  ultimately show ?thesis using ok4 by blast
qed

lemma len_map_fmmap: "len_map (map_option (fmmap f) m) = len_map m"
  by (cases m) (simp_all add: len_map_def)

lemma marshal_string_map:
  "marshal (GoMap (Some (fmmap GoString hs))) =
     Inr (JObject (written (fmmap (\<lambda>v. JString (coerce v)) hs)))"
proof -
  have "fmpred (\<lambda>_ v. \<not> isl (marshal v)) (fmmap GoString hs)"
    by (rule fmpredI) auto
  from marshal_GoMap [OF this] show ?thesis
    by (simp add: fmap.map_comp comp_def)
qed

lemma marshal_jsonResponse: "marshal (jsonResponse_goval r) = Inr (JObject (response_json r))"
proof (cases "Headers r")
  case None
  then show ?thesis
    by (simp add: jsonResponse_goval_def response_json_def opt_member_def List.map_filter_def
        encode_members_def len_map_def)
next
  case (Some hs)
  then show ?thesis
    by (simp add: jsonResponse_goval_def response_json_def opt_member_def List.map_filter_def
        encode_members_def len_map_fmmap [of GoString "Some hs", simplified]
        marshal_string_map del: marshal.simps(5))
qed

lemma marshal_jsonStubRule:
  assumes "marshal (GoMap (Request j)) = Inr rq"
  shows "marshal (jsonStubRule_goval j) =
     Inr (JObject
       (opt_member ''priority'' (map_option (\<lambda>p. JNumber (sint p)) (Priority j)) @
        opt_member ''scenarioName'' (map_option (\<lambda>n. JString (coerce n)) (ScenarioName j)) @
        opt_member ''requiredScenarioState''
          (map_option (\<lambda>n. JString (coerce n)) (RequiredScenarioScenarioState j)) @
        opt_member ''newScenarioState''
          (map_option (\<lambda>n. JString (coerce n)) (NewScenarioState j)) @
        [(''request'', rq), (''response'', JObject (response_json (Response j)))]))"
  using assms
  by (cases "Priority j"; cases "ScenarioName j"; cases "RequiredScenarioScenarioState j";
      cases "NewScenarioState j")
    (simp_all add: jsonStubRule_goval_def opt_member_def List.map_filter_def encode_members_def
      marshal_jsonResponse del: marshal.simps(5))

lemma MarshalJSON_snd: "snd (MarshalJSON s) = s"
  by (simp add: MarshalJSON_def Let_def case_prod_beta mapFrom_snd split: sum.splits)

lemma MarshalJSON_ok:
  assumes "urlMatcher (request s) = Some u" and "serializable (request s)"
  shows "fst (MarshalJSON s) = Inr (JObject (document_json s u))"
proof -
  from mapFrom_ok [OF assms] obtain req where
    a: "fst (mapFrom (request s)) = Inr req" and
    ok: "fmpred (\<lambda>_ v. \<not> isl (marshal v)) req" and
    b: "fmmap (\<lambda>v. projr (marshal v)) req = request_json (request s) u"
    by blast
  from marshal_GoMap [OF ok] b
  have c: "marshal (GoMap (Some req)) = Inr (JObject (written (request_json (request s) u)))"
    by simp
  show ?thesis
    unfolding MarshalJSON_def Let_def case_prod_beta a
    by (simp add: marshal_jsonStubRule [where rq = "JObject (written (request_json (request s) u))"]
        c document_json_def jsonStubRule_zero_def del: marshal.simps)
qed

lemma MarshalJSON_panic:
  assumes "\<not> serializable (request s)"
  shows "fst (MarshalJSON s) = Inl Panic"
  unfolding MarshalJSON_def Let_def case_prod_beta mapFrom_panic [OF assms] by simp

lemma document_eq:
  "document s =
     (if serializable (request s)
      then Some (JObject (document_json s (the (urlMatcher (request s))))) else None)"
proof (cases "serializable (request s)")
  case True
  then obtain u where "urlMatcher (request s) = Some u"
    by (auto simp: serializable_def)
  with True show ?thesis by (simp add: document_def MarshalJSON_ok)
next
  case False
  then show ?thesis by (simp add: document_def MarshalJSON_panic)
qed

lemma document_SomeD:
  assumes "document s = Some doc"
  obtains u where "urlMatcher (request s) = Some u" and "serializable (request s)"
    and "doc = JObject (document_json s u)"
proof -
  from assms have n: "serializable (request s)"
    by (simp add: document_eq split: if_splits)
  then obtain u where u: "urlMatcher (request s) = Some u"
    by (auto simp: serializable_def)
  with assms n have "doc = JObject (document_json s u)"
    by (simp add: document_eq)
  with u n show thesis by (rule that)
qed

lemma map_of_opt_member:
  "map_of (opt_member k vo @ ms) k' = (if k = k' \<and> vo \<noteq> None then vo else map_of ms k')"
  by (cases vo) (simp_all add: opt_member_def)

lemma map_of_opt_member_last:
  "map_of (opt_member k vo) k' = (if k = k' then vo else None)"
  by (cases vo) (simp_all add: opt_member_def)

lemma member_priority:
  assumes "document s = Some doc"
  shows "member doc ''priority'' = map_option (\<lambda>p. JNumber (sint p)) (priority s)"
proof -
  from assms obtain u where "doc = JObject (document_json s u)"
    by (rule document_SomeD)
  then show ?thesis
    by (cases "priority s") (simp_all add: document_json_def map_of_opt_member del: map_of_append)
qed

lemma request_members:
  assumes "document s = Some doc"
  obtains u where "urlMatcher (request s) = Some u" and "serializable (request s)"
    and "member doc ''request'' = Some (JObject (written (request_json (request s) u)))"
proof -
  from assms obtain u where u: "urlMatcher (request s) = Some u"
    and n: "serializable (request s)" and d: "doc = JObject (document_json s u)"
    by (rule document_SomeD)
  from d have "member doc ''request'' = Some (JObject (written (request_json (request s) u)))"
    by (simp add: document_json_def map_of_opt_member del: map_of_append)
  with u n show thesis by (rule that)
qed

lemma response_member:
  assumes "document s = Some doc"
  shows "member doc ''response'' =
     Some (JObject (response_json
          \<lparr>Body = body (response s), Headers = response.headers (response s),
           Status = status (response s)\<rparr>))"
proof -
  from assms obtain u where "doc = JObject (document_json s u)"
    by (rule document_SomeD)
  then show ?thesis
    by (simp add: document_json_def map_of_opt_member del: map_of_append)
qed

subsection \<open>Members of the request object\<close>

lemma ascii_keys:
  "ascii ''method''" "ascii ''bodyPatterns''" "ascii ''headers''" "ascii ''cookies''"
  "ascii ''queryParameters''" "ascii URLEqualToRule" "ascii URLPathEqualToRule"
  "ascii URLPathMatchingRule" "ascii URLMatchingRule"
  by (simp_all add: ascii_def byte_def URLEqualToRule_def URLPathEqualToRule_def
      URLPathMatchingRule_def URLMatchingRule_def)

lemma filter_key_distinct:
  assumes "distinct (map fst xs)"
  shows "filter (\<lambda>x. fst x = k0) xs = (case map_of xs k0 of None \<Rightarrow> [] | Some v \<Rightarrow> [(k0, v)])"
  using assms
proof (induction xs)
  case Nil
  then show ?case by simp
next
  case (Cons x xs)
  obtain k v where x: "x = (k, v)" by (cases x)
  show ?case
  proof (cases "k = k0")
    case True
    with Cons.prems x have "map_of xs k0 = None"
      by (auto simp: map_of_eq_None_iff)
    with Cons x True show ?thesis by simp
  next
    case False
    with Cons x show ?thesis by simp
  qed
qed

lemma members_named_written:
  assumes "\<forall>k. k |\<in>| fmdom m \<longrightarrow> (coerce k = n) = (k = k0)"
  shows "members_named (JObject (written m)) n =
           (case fmlookup m k0 of None \<Rightarrow> [] | Some v \<Rightarrow> [v])"
proof -
  let ?xs = "sorted_list_of_fmap m"
  have same: "(coerce (fst x) = n) = (fst x = k0)" if "x \<in> set ?xs" for x
  proof -
    from that have "(fst x, snd x) \<in> set ?xs" by simp
    then have "fst x |\<in>| fmdom m"
      by (simp only: in_sorted_list_of_fmap fmlookup_dom_iff) blast
    with assms show ?thesis by blast
  qed
  have "filter (\<lambda>x. coerce (fst x) = n) ?xs = filter (\<lambda>x. fst x = k0) ?xs"
    by (rule filter_cong) (simp_all add: same)
  then have "filter (\<lambda>(name, v). name = n) (written m) =
        map (\<lambda>(key, v). (coerce key, v)) (filter (\<lambda>x. fst x = k0) ?xs)"
    by (simp add: written_def filter_map comp_def case_prod_beta)
  also have "filter (\<lambda>x. fst x = k0) ?xs =
             (case fmlookup m k0 of None \<Rightarrow> [] | Some v \<Rightarrow> [(k0, v)])"
    using filter_key_distinct [OF distinct_sorted_list_of_fmap, of k0 m]
    by simp
  finally show ?thesis
    by (simp split: option.splits)
qed

lemma member_written_ascii:
  "ascii a \<Longrightarrow> member (JObject (written m)) a = fmlookup m a"
  by (simp add: map_of_written_ascii)

lemma fmlookup_put_opt:
  "fmlookup (put_opt k vo m) k' =
     (if k = k' then (case vo of None \<Rightarrow> fmlookup m k' | Some v \<Rightarrow> Some v) else fmlookup m k')"
  by (cases vo) (simp_all add: put_opt_def)

lemma bodyPatterns_member:
  "fmlookup (request_json r u) ''bodyPatterns'' =
     (if bodyPatterns r = []
      then fmlookup (fmupd (URLMatcher_Strategy u) (JString (coerce (URLMatcher_Value u))) fmempty)
             ''bodyPatterns''
      else Some (JArray (map matcher_json (bodyPatterns r))))"
  by (simp add: request_json_def fmlookup_put_opt)

lemma params_member:
  assumes "key \<in> {''headers'', ''cookies'', ''queryParameters''}"
  shows "fmlookup (request_json r u) key =
     (case params_json
             (if key = ''headers'' then request.headers r
              else if key = ''cookies'' then cookies r else queryParams r) of
        None \<Rightarrow>
          fmlookup (fmupd (URLMatcher_Strategy u) (JString (coerce (URLMatcher_Value u))) fmempty) key
      | Some j \<Rightarrow> Some j)"
  using assms
  by (auto simp: request_json_def fmlookup_put_opt split: option.splits)

lemma len_map_fmupd: "len_map (Some (fmupd k v m)) > 0"
  by (simp add: len_map_def fcard_finsert)

lemma params_json_fmupd:
  "params_json (Some (fmupd k h m)) = Some (JObject (written (fmmap iface_json (fmupd k h m))))"
  by (simp add: params_json_def len_map_fmupd)

lemma all_answer_fmupd: "all_answer (Some (fmupd k h m)) \<Longrightarrow> answers h"
  by (auto simp: all_answer_def)

lemma answers_iface_json:
  assumes "answers h"
  obtains t v where "ParamMatcherInterface_Strategy h = Inr t"
    and "ParamMatcherInterface_Value h = Inr v"
    and "iface_json h = JObject [(coerce t, JString (coerce v))]"
  using assms unfolding answers_def iface_json_def
  by (cases "ParamMatcherInterface_Strategy h"; cases "ParamMatcherInterface_Value h") auto

lemma members_named_after_assignment:
  assumes "\<forall>k\<in>fmdom' m. k \<noteq> name \<longrightarrow> coerce k \<noteq> coerce name"
  shows "members_named (JObject (written (fmmap f (fmupd name h m)))) (coerce name) = [f h]"
proof -
  have "\<forall>k. k |\<in>| fmdom (fmmap f (fmupd name h m)) \<longrightarrow> (coerce k = coerce name) = (k = name)"
    using assms by (auto simp: fmdom'_alt_def)
  from members_named_written [OF this] show ?thesis by simp
qed

lemma url_tags_not_reserved:
  assumes "t \<in> {URLEqualToRule, URLPathEqualToRule, URLPathMatchingRule, URLMatchingRule}"
  shows "t \<noteq> ''method''" and "t \<noteq> ''bodyPatterns''" and "t \<noteq> ''headers''"
    and "t \<noteq> ''cookies''" and "t \<noteq> ''queryParameters''" and "ascii t"
  using assms
  by (auto simp: URLEqualToRule_def URLPathEqualToRule_def URLPathMatchingRule_def
      URLMatchingRule_def ascii_def byte_def)

subsection \<open>Rules built by call sequences\<close>

lemma wrappers:
  "Post um = NewStubRule ''POST'' um" "Get um = NewStubRule ''GET'' um"
  "Put um = NewStubRule ''PUT'' um" "Delete um = NewStubRule ''DELETE'' um"
  by (simp_all add: Post_def Get_def Put_def Delete_def MethodPost_def MethodGet_def
      MethodPut_def MethodDelete_def)

lemma build_snoc: "build meth um (cs @ [c]) = apply_call (build meth um cs) c"
  by (simp add: build_def)

lemma priority_apply_call:
  "priority (apply_call s c) = (case c of CallAtPriority p \<Rightarrow> Some p | _ \<Rightarrow> priority s)"
  by (cases c)
    (simp_all add: WithQueryParam_def WithHeader_def WithCookie_def WithBodyPattern_def
      WillReturn_def AtPriority_def InScenario_def WhenScenarioStateIs_def WillSetStateTo_def
      Let_def)

lemma priority_build:
  "(priority (build meth um cs) = None) = (\<forall>c\<in>set cs. \<not> is_AtPriority c)"
proof (induction cs rule: rev_induct)
  case Nil
  then show ?case by (simp add: build_def NewStubRule_def)
next
  case (snoc c cs)
  have "priority (build meth um (cs @ [c])) =
          (case c of CallAtPriority p \<Rightarrow> Some p | _ \<Rightarrow> priority (build meth um cs))"
    by (simp add: build_snoc priority_apply_call del: apply_call.simps)
  with snoc show ?case
    by (cases c) simp_all
qed

lemma priority_foldl_others:
  "\<forall>c\<in>set cs. \<not> is_AtPriority c \<Longrightarrow> priority (foldl apply_call s cs) = priority s"
proof (induction cs arbitrary: s)
  case Nil
  then show ?case by simp
next
  case (Cons c cs)
  then have "priority (foldl apply_call (apply_call s c) cs) = priority (apply_call s c)"
    by simp
  also from Cons.prems have "priority (apply_call s c) = priority s"
    by (cases c) (simp_all add: priority_apply_call del: apply_call.simps)
  finally show ?case by simp
qed

lemma priority_build_last:
  assumes "\<forall>c\<in>set cs'. \<not> is_AtPriority c"
  shows "priority (build meth um (cs @ CallAtPriority p # cs')) = Some p"
proof -
  have "build meth um (cs @ CallAtPriority p # cs') =
        foldl apply_call (AtPriority (build meth um cs) p) cs'"
    by (simp add: build_def)
  with priority_foldl_others [OF assms] show ?thesis
    by (simp add: AtPriority_def)
qed

lemma foldl_WithBodyPattern:
  "foldl WithBodyPattern s ms =
     s\<lparr>request := (request s)\<lparr>bodyPatterns := bodyPatterns (request s) @ ms\<rparr>\<rparr>"
  by (induction ms arbitrary: s) (simp_all add: WithBodyPattern_def)

lemma serializable_apply_call:
  assumes "serializable (request s)" and "passes_matcher c"
  shows "serializable (request (apply_call s c))"
  using assms
  by (cases c)
    (auto simp: serializable_def all_answer_def WithQueryParam_def WithHeader_def WithCookie_def
      WithBodyPattern_def WillReturn_def AtPriority_def InScenario_def WhenScenarioStateIs_def
      WillSetStateTo_def Let_def fmpred_upd split: option.splits)

lemma serializable_build:
  assumes "\<forall>c\<in>set cs. passes_matcher c"
  shows "serializable (request (build meth um cs))"
  using assms
proof (induction cs rule: rev_induct)
  case Nil
  then show ?case by (simp add: build_def NewStubRule_def serializable_def all_answer_def)
next
  case (snoc c cs)
  then show ?case by (simp add: build_snoc serializable_apply_call del: apply_call.simps)
qed

lemma NewStubRule_document:
  assumes "URLMatcher_Strategy um \<in>
             {URLEqualToRule, URLPathEqualToRule, URLPathMatchingRule, URLMatchingRule}"
  shows "\<exists>doc req resp.
     document (NewStubRule meth um) = Some doc \<and>
     member doc ''request'' = Some req \<and> member doc ''response'' = Some resp \<and>
     member doc ''priority'' = None \<and> member doc ''scenarioName'' = None \<and>
     member doc ''requiredScenarioState'' = None \<and> member doc ''newScenarioState'' = None \<and>
     member req ''bodyPatterns'' = None \<and> member req ''headers'' = None \<and>
     member req ''cookies'' = None \<and> member req ''queryParameters'' = None \<and>
     member resp ''body'' = None \<and> member resp ''status'' = Some (JNumber 200)"
proof -
  let ?s = "NewStubRule meth um"
  have n: "serializable (request ?s)"
    by (simp add: serializable_def NewStubRule_def all_answer_def)
  have d: "document ?s = Some (JObject (document_json ?s um))"
    using n by (simp add: document_eq) (simp add: NewStubRule_def)
  have r: "member (JObject (document_json ?s um)) ''request'' =
             Some (JObject (written (request_json (request ?s) um)))"
    and p: "member (JObject (document_json ?s um)) ''response'' =
             Some (JObject (response_json
               \<lparr>Body = body (response ?s), Headers = response.headers (response ?s),
                Status = status (response ?s)\<rparr>))"
    and o: "member (JObject (document_json ?s um)) ''priority'' = None"
      "member (JObject (document_json ?s um)) ''scenarioName'' = None"
      "member (JObject (document_json ?s um)) ''requiredScenarioState'' = None"
      "member (JObject (document_json ?s um)) ''newScenarioState'' = None"
    by (simp_all add: document_json_def map_of_opt_member NewStubRule_def opt_member_def)
  have q: "fmlookup (request_json (request ?s) um) ''bodyPatterns'' = None"
    "fmlookup (request_json (request ?s) um) ''headers'' = None"
    "fmlookup (request_json (request ?s) um) ''cookies'' = None"
    "fmlookup (request_json (request ?s) um) ''queryParameters'' = None"
    using url_tags_not_reserved [OF assms]
    by (simp_all add: request_json_def fmlookup_put_opt params_json_def len_map_def
        NewStubRule_def)
  have b: "member (JObject (response_json
               \<lparr>Body = body (response ?s), Headers = response.headers (response ?s),
                Status = status (response ?s)\<rparr>)) ''body'' = None"
    "member (JObject (response_json
               \<lparr>Body = body (response ?s), Headers = response.headers (response ?s),
                Status = status (response ?s)\<rparr>)) ''status'' = Some (JNumber 200)"
    by (simp_all add: response_json_def opt_member_def NewStubRule_def StatusOK_def len_map_def)
  show ?thesis
    unfolding d using r p o b q
    by (simp only: option.inject ex_simps simp_thms member_written_ascii [OF ascii_keys(2)]
        member_written_ascii [OF ascii_keys(3)] member_written_ascii [OF ascii_keys(4)]
        member_written_ascii [OF ascii_keys(5)])
qed

lemma params_after_assignment:
  assumes d: "document s = Some doc"
    and key: "key \<in> {''headers'', ''cookies'', ''queryParameters''}"
    and ms: "(if key = ''headers'' then request.headers (request s)
              else if key = ''cookies'' then cookies (request s)
              else queryParams (request s)) = Some (fmupd name h m)"
    and c: "\<forall>k\<in>fmdom' m. k \<noteq> name \<longrightarrow> coerce k \<noteq> coerce name"
  shows "\<exists>t v req ps.
           ParamMatcherInterface_Strategy h = Inr t \<and> ParamMatcherInterface_Value h = Inr v \<and>
           member doc ''request'' = Some req \<and> member req key = Some ps \<and>
           members_named ps (coerce name) = [JObject [(coerce t, JString (coerce v))]]"
proof -
  from d obtain u where n: "serializable (request s)"
    and r: "member doc ''request'' = Some (JObject (written (request_json (request s) u)))"
    by (rule request_members)
  from n ms key have "answers h"
    by (auto simp: serializable_def dest: all_answer_fmupd split: if_splits)
  then obtain t v where t: "ParamMatcherInterface_Strategy h = Inr t"
    and v: "ParamMatcherInterface_Value h = Inr v"
    and j: "iface_json h = JObject [(coerce t, JString (coerce v))]"
    by (rule answers_iface_json)
  from key have a: "ascii key"
    by (auto simp: ascii_keys)
  have "member (JObject (written (request_json (request s) u))) key =
          Some (JObject (written (fmmap iface_json (fmupd name h m))))"
    unfolding member_written_ascii [OF a] params_member [OF key] ms params_json_fmupd
    by simp
  moreover have "members_named (JObject (written (fmmap iface_json (fmupd name h m))))
                   (coerce name) = [JObject [(coerce t, JString (coerce v))]]"
    using members_named_after_assignment [OF c, of iface_json h] j by simp
  ultimately show ?thesis using t v r by blast
qed

lemma names_headers_WithHeader:
  "\<exists>m. request.headers (request (WithHeader (WithHeader s name m1) name m2)) =
         Some (fmupd name m2 m) \<and> fmdom' m \<subseteq> insert name (names (request.headers (request s)))"
  by (cases "request.headers (request s)") (auto simp: WithHeader_def Let_def names_def)

lemma names_cookies_WithCookie:
  "\<exists>m. cookies (request (WithCookie (WithCookie s name m1) name m2)) =
         Some (fmupd name m2 m) \<and> fmdom' m \<subseteq> insert name (names (cookies (request s)))"
  by (cases "cookies (request s)") (auto simp: WithCookie_def Let_def names_def)

lemma names_queryParams_WithQueryParam:
  "\<exists>m. queryParams (request (WithQueryParam (WithQueryParam s name m1) name m2)) =
         Some (fmupd name m2 m) \<and> fmdom' m \<subseteq> insert name (names (queryParams (request s)))"
  by (cases "queryParams (request s)") (auto simp: WithQueryParam_def Let_def names_def)

section \<open>The claims\<close>

subsection \<open>C1: the status member of the response object\<close>

text \<open>
  C1, as amended. For every rule that serializes to a document, the document has a
  response object, and that object contains the member \<^verbatim>\<open>status\<close> exactly when the
  rule's status is not 0, with the status as its value. The status field carries
  \<^verbatim>\<open>omitempty\<close>, so a status of 0, which \<^verbatim>\<open>WillReturn\<close> accepts, is left out.
\<close>

theorem status_member_iff_nonzero:
  assumes "document s = Some doc"
  shows "\<exists>resp. member doc ''response'' = Some resp \<and>
           member resp ''status'' =
             (if status (response s) = 0 then None
              else Some (JNumber (sint (status (response s)))))"
  using response_member [OF assms]
  by (simp add: response_json_def map_of_opt_member map_of_opt_member_last del: map_of_append)

theorem status_member_iff_nonzero_witness:
  "document (WillReturn (Get (URLEqualTo ''/'')) ''ok'' None 404) =
     Some (JObject
       [(''request'', JObject
           [(''method'', JString ''GET''), (''url'', JString ''/'')]),
        (''response'', JObject [(''body'', JString ''ok''), (''status'', JNumber 404)])]) \<and>
   (\<exists>resp. member (JObject
       [(''request'', JObject
           [(''method'', JString ''GET''), (''url'', JString ''/'')]),
        (''response'', JObject [(''body'', JString ''ok''), (''status'', JNumber 404)])]) ''response'' = Some resp \<and>
      member resp ''status'' = Some (JNumber 404))"
proof -
  have d: "document (WillReturn (Get (URLEqualTo ''/'')) ''ok'' None 404) =
     Some (JObject
       [(''request'', JObject
           [(''method'', JString ''GET''), (''url'', JString ''/'')]),
        (''response'', JObject [(''body'', JString ''ok''), (''status'', JNumber 404)])])"
    by code_simp
  have st: "status (response (WillReturn (Get (URLEqualTo ''/'')) ''ok'' None 404)) = 404"
    by (simp add: WillReturn_def)
  from status_member_iff_nonzero [OF d] d show ?thesis
    unfolding st by simp
qed

text \<open>
  C1 as stated fails: after \<^verbatim>\<open>WillReturn("", nil, 0)\<close> on \<^verbatim>\<open>Get(URLEqualTo("/"))\<close> the
  rule serializes to a document whose response object is empty, without \<^verbatim>\<open>status\<close>.
\<close>

theorem status_zero_counterexample:
  "document (WillReturn (Get (URLEqualTo ''/'')) [] None 0) =
     Some (JObject
       [(''request'', JObject
           [(''method'', JString ''GET''), (''url'', JString ''/'')]),
        (''response'', JObject [])]) \<and>
   response_object (WillReturn (Get (URLEqualTo ''/'')) [] None 0) = Some (JObject []) \<and>
   member (JObject []) ''status'' = None"
  by code_simp

subsection \<open>C2: priority is emitted when it was set, also when it is 0\<close>

text \<open>
  C2. After \<^verbatim>\<open>AtPriority(0)\<close> the document has the member \<^verbatim>\<open>priority\<close> with value 0.
  For a rule built by a call sequence: when \<^verbatim>\<open>AtPriority(p)\<close> is the last
  \<^verbatim>\<open>AtPriority\<close> call of the sequence, the member \<^verbatim>\<open>priority\<close> has the value \<open>p\<close>; and
  the member is absent exactly when the sequence has no \<^verbatim>\<open>AtPriority\<close> call at all.
\<close>

theorem priority_member_iff_AtPriority_called:
  "(document (AtPriority s 0) = Some doc \<longrightarrow> member doc ''priority'' = Some (JNumber 0)) \<and>
   (document (build meth um (cs @ CallAtPriority p # cs')) = Some doc' \<and>
    (\<forall>c\<in>set cs'. \<not> is_AtPriority c) \<longrightarrow>
      member doc' ''priority'' = Some (JNumber (sint p))) \<and>
   (document (build meth um ds) = Some doc'' \<longrightarrow>
      (member doc'' ''priority'' = None) = (\<forall>c\<in>set ds. \<not> is_AtPriority c))"
proof (intro conjI impI)
  assume "document (AtPriority s 0) = Some doc"
  from member_priority [OF this] show "member doc ''priority'' = Some (JNumber 0)"
    by (simp add: AtPriority_def)
next
  assume a: "document (build meth um (cs @ CallAtPriority p # cs')) = Some doc' \<and>
    (\<forall>c\<in>set cs'. \<not> is_AtPriority c)"
  then have "priority (build meth um (cs @ CallAtPriority p # cs')) = Some p"
    by (simp add: priority_build_last)
  with member_priority [of "build meth um (cs @ CallAtPriority p # cs')" doc'] a
  show "member doc' ''priority'' = Some (JNumber (sint p))"
    by simp
next
  assume "document (build meth um ds) = Some doc''"
  from member_priority [OF this] priority_build [of meth um ds]
  show "(member doc'' ''priority'' = None) = (\<forall>c\<in>set ds. \<not> is_AtPriority c)"
    by simp
qed

theorem priority_member_iff_AtPriority_called_witness:
  "document (AtPriority (Get (URLEqualTo ''/'')) 0) =
     Some (JObject
       [(''priority'', JNumber 0),
        (''request'', JObject
           [(''method'', JString ''GET''), (''url'', JString ''/'')]),
        (''response'', JObject [(''status'', JNumber 200)])]) \<and>
   member (JObject
       [(''priority'', JNumber 0),
        (''request'', JObject
           [(''method'', JString ''GET''), (''url'', JString ''/'')]),
        (''response'', JObject [(''status'', JNumber 200)])]) ''priority'' = Some (JNumber 0) \<and>
   document (build ''GET'' (URLEqualTo ''/'') [CallAtPriority 0, CallInScenario ''flow'']) =
     Some (JObject
       [(''priority'', JNumber 0), (''scenarioName'', JString ''flow''),
        (''request'', JObject
           [(''method'', JString ''GET''), (''url'', JString ''/'')]),
        (''response'', JObject [(''status'', JNumber 200)])]) \<and>
   member (JObject
       [(''priority'', JNumber 0), (''scenarioName'', JString ''flow''),
        (''request'', JObject
           [(''method'', JString ''GET''), (''url'', JString ''/'')]),
        (''response'', JObject [(''status'', JNumber 200)])]) ''priority'' = Some (JNumber 0) \<and>
   document (build ''GET'' (URLEqualTo ''/'') [CallInScenario ''flow'']) =
     Some (JObject
       [(''scenarioName'', JString ''flow''),
        (''request'', JObject
           [(''method'', JString ''GET''), (''url'', JString ''/'')]),
        (''response'', JObject [(''status'', JNumber 200)])]) \<and>
   member (JObject
       [(''scenarioName'', JString ''flow''),
        (''request'', JObject
           [(''method'', JString ''GET''), (''url'', JString ''/'')]),
        (''response'', JObject [(''status'', JNumber 200)])]) ''priority'' = None"
proof -
  let ?d0 = "JObject
       [(''priority'', JNumber 0),
        (''request'', JObject
           [(''method'', JString ''GET''), (''url'', JString ''/'')]),
        (''response'', JObject [(''status'', JNumber 200)])]"
  let ?d1 = "JObject
       [(''priority'', JNumber 0), (''scenarioName'', JString ''flow''),
        (''request'', JObject
           [(''method'', JString ''GET''), (''url'', JString ''/'')]),
        (''response'', JObject [(''status'', JNumber 200)])]"
  let ?d2 = "JObject
       [(''scenarioName'', JString ''flow''),
        (''request'', JObject
           [(''method'', JString ''GET''), (''url'', JString ''/'')]),
        (''response'', JObject [(''status'', JNumber 200)])]"
  have a: "document (AtPriority (Get (URLEqualTo ''/'')) 0) = Some ?d0"
    by code_simp
  have b: "document (build ''GET'' (URLEqualTo ''/'')
             ([] @ CallAtPriority 0 # [CallInScenario ''flow''])) = Some ?d1"
    by code_simp
  have c: "document (build ''GET'' (URLEqualTo ''/'') [CallInScenario ''flow'']) = Some ?d2"
    by code_simp
  from priority_member_iff_AtPriority_called
    [of "Get (URLEqualTo ''/'')" ?d0 "''GET''" "URLEqualTo ''/''" "[]" 0
        "[CallInScenario ''flow'']" ?d1 "[CallInScenario ''flow'']" ?d2]
    a b c
  show ?thesis by simp
qed

subsection \<open>C3: the document of a fresh rule\<close>

text \<open>
  C3. A rule fresh from \<^verbatim>\<open>NewStubRule\<close>, \<^verbatim>\<open>Post\<close>, \<^verbatim>\<open>Get\<close>, \<^verbatim>\<open>Put\<close> or \<^verbatim>\<open>Delete\<close>, with
  a URL matcher of one of the four URL strategies, serializes to a document without
  the members \<^verbatim>\<open>priority\<close>, \<^verbatim>\<open>scenarioName\<close>, \<^verbatim>\<open>requiredScenarioState\<close> and
  \<^verbatim>\<open>newScenarioState\<close>, whose request object has none of \<^verbatim>\<open>bodyPatterns\<close>,
  \<^verbatim>\<open>headers\<close>, \<^verbatim>\<open>cookies\<close> and \<^verbatim>\<open>queryParameters\<close>, and whose response object has no
  \<^verbatim>\<open>body\<close> and has \<^verbatim>\<open>status\<close> 200.
\<close>

theorem fresh_rule_document:
  assumes "s = NewStubRule meth um \<or> s = Post um \<or> s = Get um \<or> s = Put um \<or> s = Delete um"
    and "URLMatcher_Strategy um \<in>
           {URLEqualToRule, URLPathEqualToRule, URLPathMatchingRule, URLMatchingRule}"
  shows "\<exists>doc req resp.
     document s = Some doc \<and>
     member doc ''request'' = Some req \<and> member doc ''response'' = Some resp \<and>
     member doc ''priority'' = None \<and> member doc ''scenarioName'' = None \<and>
     member doc ''requiredScenarioState'' = None \<and> member doc ''newScenarioState'' = None \<and>
     member req ''bodyPatterns'' = None \<and> member req ''headers'' = None \<and>
     member req ''cookies'' = None \<and> member req ''queryParameters'' = None \<and>
     member resp ''body'' = None \<and> member resp ''status'' = Some (JNumber 200)"
proof -
  from assms(1) obtain m where "s = NewStubRule m um"
    by (auto simp: wrappers)
  with NewStubRule_document [OF assms(2), of m] show ?thesis by simp
qed

theorem fresh_rule_document_witness:
  "URLMatcher_Strategy (URLPathEqualTo ''/a'') \<in>
     {URLEqualToRule, URLPathEqualToRule, URLPathMatchingRule, URLMatchingRule} \<and>
   (\<exists>doc req resp.
     document (Post (URLPathEqualTo ''/a'')) = Some doc \<and>
     member doc ''request'' = Some req \<and> member doc ''response'' = Some resp \<and>
     member doc ''priority'' = None \<and> member doc ''scenarioName'' = None \<and>
     member doc ''requiredScenarioState'' = None \<and> member doc ''newScenarioState'' = None \<and>
     member req ''bodyPatterns'' = None \<and> member req ''headers'' = None \<and>
     member req ''cookies'' = None \<and> member req ''queryParameters'' = None \<and>
     member resp ''body'' = None \<and> member resp ''status'' = Some (JNumber 200))"
proof -
  have h: "URLMatcher_Strategy (URLPathEqualTo ''/a'') \<in>
     {URLEqualToRule, URLPathEqualToRule, URLPathMatchingRule, URLMatchingRule}"
    by (simp add: URLMatcher_Strategy_def URLPathEqualTo_def)
  have c: "Post (URLPathEqualTo ''/a'') = NewStubRule ''POST'' (URLPathEqualTo ''/a'') \<or>
      Post (URLPathEqualTo ''/a'') = Post (URLPathEqualTo ''/a'') \<or>
      Post (URLPathEqualTo ''/a'') = Get (URLPathEqualTo ''/a'') \<or>
      Post (URLPathEqualTo ''/a'') = Put (URLPathEqualTo ''/a'') \<or>
      Post (URLPathEqualTo ''/a'') = Delete (URLPathEqualTo ''/a'')"
    by simp
  from fresh_rule_document [OF c h] h show ?thesis by simp
qed

subsection \<open>C4: the worked example\<close>

text \<open>
  C4. The rule built by \<^verbatim>\<open>Post(URLEqualTo("/things"))\<close>, then
  \<^verbatim>\<open>WithHeader("X-Key", EqualTo("abc"))\<close>, then \<^verbatim>\<open>WillReturn\<close> with body \<^verbatim>\<open>{}\<close>, the
  header \<^verbatim>\<open>Content-Type: application/json\<close> and status 201 serializes to the document
  whose request object has exactly the members method \<^verbatim>\<open>POST\<close>, url \<^verbatim>\<open>/things\<close> and
  headers \<^verbatim>\<open>{X-Key: {equalTo: abc}}\<close>, and whose response object has exactly the members
  body \<^verbatim>\<open>{}\<close>, headers \<^verbatim>\<open>{Content-Type: application/json}\<close> and status 201; the
  document has no other member. The members stand in the order in which the encoder
  writes them.
\<close>

theorem example_document:
  "document
     (WillReturn
        (WithHeader (Post (URLEqualTo ''/things'')) ''X-Key''
           (ParamMatcherValue (EqualTo ''abc'')))
        ''{}'' (Some (fmupd ''Content-Type'' ''application/json'' fmempty)) 201) =
   Some (JObject
     [(''request'', JObject
         [(''headers'', JObject [(''X-Key'', JObject [(''equalTo'', JString ''abc'')])]),
          (''method'', JString ''POST''),
          (''url'', JString ''/things'')]),
      (''response'', JObject
         [(''body'', JString ''{}''),
          (''headers'', JObject [(''Content-Type'', JString ''application/json'')]),
          (''status'', JNumber 201)])])"
  by code_simp

subsection \<open>C5: the last matcher under a name wins\<close>

text \<open>
  C5, as amended. When \<^verbatim>\<open>WithHeader\<close> is called twice with the same name, first with
  matcher \<open>m1\<close> and then with \<open>m2\<close>, the rule is the one that the second call alone would
  have produced, so nothing of \<open>m1\<close> is left. When the rule serializes, and no other
  header name of the rule is written by the encoder as the same member name, the
  headers object of the request has exactly one member under the name as the encoder
  writes it: the single-member object of \<open>m2\<close>, with the strategy and the value that
  \<open>m2\<close> returns, as the encoder writes them. The encoder writes a string that is valid
  UTF-8 unchanged, and replaces every other byte by U+FFFD. The same holds for
  \<^verbatim>\<open>WithCookie\<close> and \<^verbatim>\<open>WithQueryParam\<close> and their objects.
\<close>

theorem last_write_wins:
  "(document (WithHeader (WithHeader s name m1) name m2) = Some doc \<and>
    (\<forall>k\<in>names (request.headers (request s)). k \<noteq> name \<longrightarrow> coerce k \<noteq> coerce name) \<longrightarrow>
      (\<exists>t v req hs.
         ParamMatcherInterface_Strategy m2 = Inr t \<and> ParamMatcherInterface_Value m2 = Inr v \<and>
         member doc ''request'' = Some req \<and> member req ''headers'' = Some hs \<and>
         members_named hs (coerce name) = [JObject [(coerce t, JString (coerce v))]])) \<and>
   (document (WithCookie (WithCookie s name m1) name m2) = Some doc' \<and>
    (\<forall>k\<in>names (cookies (request s)). k \<noteq> name \<longrightarrow> coerce k \<noteq> coerce name) \<longrightarrow>
      (\<exists>t v req cs.
         ParamMatcherInterface_Strategy m2 = Inr t \<and> ParamMatcherInterface_Value m2 = Inr v \<and>
         member doc' ''request'' = Some req \<and> member req ''cookies'' = Some cs \<and>
         members_named cs (coerce name) = [JObject [(coerce t, JString (coerce v))]])) \<and>
   (document (WithQueryParam (WithQueryParam s name m1) name m2) = Some doc'' \<and>
    (\<forall>k\<in>names (queryParams (request s)). k \<noteq> name \<longrightarrow> coerce k \<noteq> coerce name) \<longrightarrow>
      (\<exists>t v req qs.
         ParamMatcherInterface_Strategy m2 = Inr t \<and> ParamMatcherInterface_Value m2 = Inr v \<and>
         member doc'' ''request'' = Some req \<and> member req ''queryParameters'' = Some qs \<and>
         members_named qs (coerce name) = [JObject [(coerce t, JString (coerce v))]])) \<and>
   WithHeader (WithHeader s name m1) name m2 = WithHeader s name m2 \<and>
   WithCookie (WithCookie s name m1) name m2 = WithCookie s name m2 \<and>
   WithQueryParam (WithQueryParam s name m1) name m2 = WithQueryParam s name m2 \<and>
   (valid_utf8 x \<longrightarrow> coerce x = x)"
proof (intro conjI impI)
  let ?s = "WithHeader (WithHeader s name m1) name m2"
  assume a: "document ?s = Some doc \<and>
    (\<forall>k\<in>names (request.headers (request s)). k \<noteq> name \<longrightarrow> coerce k \<noteq> coerce name)"
  from names_headers_WithHeader [of s name m1 m2] obtain m where
    m: "request.headers (request ?s) = Some (fmupd name m2 m)"
    and sub: "fmdom' m \<subseteq> insert name (names (request.headers (request s)))"
    by blast
  from a sub have c: "\<forall>k\<in>fmdom' m. k \<noteq> name \<longrightarrow> coerce k \<noteq> coerce name"
    by blast
  from a have d: "document ?s = Some doc" by simp
  from params_after_assignment [OF d, of "''headers''" name m2 m] m c
  show "\<exists>t v req hs.
         ParamMatcherInterface_Strategy m2 = Inr t \<and> ParamMatcherInterface_Value m2 = Inr v \<and>
         member doc ''request'' = Some req \<and> member req ''headers'' = Some hs \<and>
         members_named hs (coerce name) = [JObject [(coerce t, JString (coerce v))]]"
    by simp
next
  let ?s = "WithCookie (WithCookie s name m1) name m2"
  assume a: "document ?s = Some doc' \<and>
    (\<forall>k\<in>names (cookies (request s)). k \<noteq> name \<longrightarrow> coerce k \<noteq> coerce name)"
  from names_cookies_WithCookie [of s name m1 m2] obtain m where
    m: "cookies (request ?s) = Some (fmupd name m2 m)"
    and sub: "fmdom' m \<subseteq> insert name (names (cookies (request s)))"
    by blast
  from a sub have c: "\<forall>k\<in>fmdom' m. k \<noteq> name \<longrightarrow> coerce k \<noteq> coerce name"
    by blast
  from a have d: "document ?s = Some doc'" by simp
  from params_after_assignment [OF d, of "''cookies''" name m2 m] m c
  show "\<exists>t v req cs.
         ParamMatcherInterface_Strategy m2 = Inr t \<and> ParamMatcherInterface_Value m2 = Inr v \<and>
         member doc' ''request'' = Some req \<and> member req ''cookies'' = Some cs \<and>
         members_named cs (coerce name) = [JObject [(coerce t, JString (coerce v))]]"
    by simp
next
  let ?s = "WithQueryParam (WithQueryParam s name m1) name m2"
  assume a: "document ?s = Some doc'' \<and>
    (\<forall>k\<in>names (queryParams (request s)). k \<noteq> name \<longrightarrow> coerce k \<noteq> coerce name)"
  from names_queryParams_WithQueryParam [of s name m1 m2] obtain m where
    m: "queryParams (request ?s) = Some (fmupd name m2 m)"
    and sub: "fmdom' m \<subseteq> insert name (names (queryParams (request s)))"
    by blast
  from a sub have c: "\<forall>k\<in>fmdom' m. k \<noteq> name \<longrightarrow> coerce k \<noteq> coerce name"
    by blast
  from a have d: "document ?s = Some doc''" by simp
  from params_after_assignment [OF d, of "''queryParameters''" name m2 m] m c
  show "\<exists>t v req qs.
         ParamMatcherInterface_Strategy m2 = Inr t \<and> ParamMatcherInterface_Value m2 = Inr v \<and>
         member doc'' ''request'' = Some req \<and> member req ''queryParameters'' = Some qs \<and>
         members_named qs (coerce name) = [JObject [(coerce t, JString (coerce v))]]"
    by simp
next
  show "WithHeader (WithHeader s name m1) name m2 = WithHeader s name m2"
    by (simp add: WithHeader_def Let_def)
  show "WithCookie (WithCookie s name m1) name m2 = WithCookie s name m2"
    by (simp add: WithCookie_def Let_def)
  show "WithQueryParam (WithQueryParam s name m1) name m2 = WithQueryParam s name m2"
    by (simp add: WithQueryParam_def Let_def)
next
  assume "valid_utf8 x"
  then show "coerce x = x" by (rule valid_utf8_coerce)
qed

theorem last_write_wins_witness:
  "names (request.headers (request (WithHeader (Get (URLEqualTo ''/'')) ''A'' (ParamMatcherValue (EqualTo ''z''))))) = {''A''} \<and>
   coerce ''A'' \<noteq> coerce ''X'' \<and> valid_utf8 ''X'' \<and> coerce ''X'' = ''X'' \<and>
   names (cookies (request (WithHeader (Get (URLEqualTo ''/'')) ''A'' (ParamMatcherValue (EqualTo ''z''))))) = {} \<and>
   names (queryParams (request (WithHeader (Get (URLEqualTo ''/'')) ''A'' (ParamMatcherValue (EqualTo ''z''))))) = {} \<and>
   document (WithHeader (WithHeader (WithHeader (Get (URLEqualTo ''/'')) ''A'' (ParamMatcherValue (EqualTo ''z''))) ''X'' (ParamMatcherValue (EqualTo ''a''))) ''X'' (ParamMatcherPointer (Some (Contains ''b'')))) =
     Some (JObject
       [(''request'', JObject
           [(''headers'', JObject [(''A'', JObject [(''equalTo'', JString ''z'')]), (''X'', JObject [(''contains'', JString ''b'')])]),
            (''method'', JString ''GET''), (''url'', JString ''/'')]),
        (''response'', JObject [(''status'', JNumber 200)])]) \<and>
   document (WithCookie (WithCookie (WithHeader (Get (URLEqualTo ''/'')) ''A'' (ParamMatcherValue (EqualTo ''z''))) ''X'' (ParamMatcherValue (EqualTo ''a''))) ''X'' (ParamMatcherPointer (Some (Contains ''b'')))) =
     Some (JObject
       [(''request'', JObject
           [(''cookies'', JObject [(''X'', JObject [(''contains'', JString ''b'')])]),
            (''headers'', JObject [(''A'', JObject [(''equalTo'', JString ''z'')])]),
            (''method'', JString ''GET''), (''url'', JString ''/'')]),
        (''response'', JObject [(''status'', JNumber 200)])]) \<and>
   document (WithQueryParam (WithQueryParam (WithHeader (Get (URLEqualTo ''/'')) ''A'' (ParamMatcherValue (EqualTo ''z''))) ''X'' (ParamMatcherValue (EqualTo ''a''))) ''X'' (ParamMatcherPointer (Some (Contains ''b'')))) =
     Some (JObject
       [(''request'', JObject
           [(''headers'', JObject [(''A'', JObject [(''equalTo'', JString ''z'')])]),
            (''method'', JString ''GET''), (''queryParameters'', JObject [(''X'', JObject [(''contains'', JString ''b'')])]),
            (''url'', JString ''/'')]),
        (''response'', JObject [(''status'', JNumber 200)])]) \<and>
   members_named (JObject [(''A'', JObject [(''equalTo'', JString ''z'')]), (''X'', JObject [(''contains'', JString ''b'')])]) ''X'' = [JObject [(''contains'', JString ''b'')]] \<and>
   members_named (JObject [(''X'', JObject [(''contains'', JString ''b'')])]) ''X'' = [JObject [(''contains'', JString ''b'')]]"
proof -
  let ?s = "WithHeader (Get (URLEqualTo ''/'')) ''A'' (ParamMatcherValue (EqualTo ''z''))"
  let ?m1 = "(ParamMatcherValue (EqualTo ''a''))"
  let ?m2 = "(ParamMatcherPointer (Some (Contains ''b'')))"
  let ?dh = "JObject
       [(''request'', JObject
           [(''headers'', JObject [(''A'', JObject [(''equalTo'', JString ''z'')]), (''X'', JObject [(''contains'', JString ''b'')])]),
            (''method'', JString ''GET''), (''url'', JString ''/'')]),
        (''response'', JObject [(''status'', JNumber 200)])]"
  let ?dc = "JObject
       [(''request'', JObject
           [(''cookies'', JObject [(''X'', JObject [(''contains'', JString ''b'')])]),
            (''headers'', JObject [(''A'', JObject [(''equalTo'', JString ''z'')])]),
            (''method'', JString ''GET''), (''url'', JString ''/'')]),
        (''response'', JObject [(''status'', JNumber 200)])]"
  let ?dq = "JObject
       [(''request'', JObject
           [(''headers'', JObject [(''A'', JObject [(''equalTo'', JString ''z'')])]),
            (''method'', JString ''GET''), (''queryParameters'', JObject [(''X'', JObject [(''contains'', JString ''b'')])]),
            (''url'', JString ''/'')]),
        (''response'', JObject [(''status'', JNumber 200)])]"
  have n: "names (request.headers (request ?s)) = {''A''}"
    "names (cookies (request ?s)) = {}" "names (queryParams (request ?s)) = {}"
    by (simp_all add: names_def WithHeader_def Get_def NewStubRule_def)
  have x: "coerce ''A'' \<noteq> coerce ''X''" "valid_utf8 ''X''"
    by code_simp+
  have h: "document (WithHeader (WithHeader ?s ''X'' ?m1) ''X'' ?m2) = Some ?dh"
    by code_simp
  have c: "document (WithCookie (WithCookie ?s ''X'' ?m1) ''X'' ?m2) = Some ?dc"
    by code_simp
  have q: "document (WithQueryParam (WithQueryParam ?s ''X'' ?m1) ''X'' ?m2) = Some ?dq"
    by code_simp
  have p: "ParamMatcherInterface_Strategy ?m2 = Inr ''contains''"
    "ParamMatcherInterface_Value ?m2 = Inr ''b''"
    by (simp_all add: ParamMatcher_Strategy_def ParamMatcher_Value_def Contains_def
        ParamContains_def)
  have e: "coerce ''contains'' = ''contains''" "coerce ''b'' = ''b''"
    by code_simp+
  from last_write_wins [of ?s "''X''" ?m1 ?m2 ?dh ?dc ?dq "''X''"] h c q n x
  have "coerce ''X'' = ''X'' \<and>
        members_named (JObject [(''A'', JObject [(''equalTo'', JString ''z'')]), (''X'', JObject [(''contains'', JString ''b'')])]) ''X'' = [JObject [(''contains'', JString ''b'')]] \<and>
        members_named (JObject [(''X'', JObject [(''contains'', JString ''b'')])]) ''X'' = [JObject [(''contains'', JString ''b'')]]"
    by (simp add: p e)
  with n x h c q show ?thesis by simp
qed

text \<open>
  C5 as stated fails: after \<^verbatim>\<open>WithHeader("\xff", EqualTo("a"))\<close> and then
  \<^verbatim>\<open>WithHeader("\xff", EqualTo("b"))\<close> on \<^verbatim>\<open>Get(URLEqualTo("/"))\<close>, where the name is the
  single byte FF, the headers object of the document has one member, named U+FFFD, and
  none under the name that was passed.
\<close>

theorem header_name_counterexample:
  "document
     (WithHeader
        (WithHeader (Get (URLEqualTo ''/'')) [CHR 0xFF] (ParamMatcherValue (EqualTo ''a'')))
        [CHR 0xFF] (ParamMatcherValue (EqualTo ''b''))) =
     Some (JObject
       [(''request'', JObject
           [(''headers'', JObject [([CHR 0xEF, CHR 0xBF, CHR 0xBD], JObject [(''equalTo'', JString ''b'')])]),
            (''method'', JString ''GET''), (''url'', JString ''/'')]),
        (''response'', JObject [(''status'', JNumber 200)])]) \<and>
   member (JObject [([CHR 0xEF, CHR 0xBF, CHR 0xBD], JObject [(''equalTo'', JString ''b'')])]) [CHR 0xFF] = None \<and>
   members_named (JObject [([CHR 0xEF, CHR 0xBF, CHR 0xBD], JObject [(''equalTo'', JString ''b'')])]) [CHR 0xFF] = []"
  by code_simp

subsection \<open>C6: body patterns keep the order of the calls\<close>

text \<open>
  C6, as amended. Each \<^verbatim>\<open>WithBodyPattern\<close> call appends its matcher to the rule's
  sequence of body patterns, whether or not the matcher is already there. After one or
  more calls with the matchers \<open>ms\<close>, a rule that serializes has in its request object
  the member \<^verbatim>\<open>bodyPatterns\<close>, an array with one single-member object for each pattern
  the rule had before, followed by one for each of \<open>ms\<close>, in the order of the calls; on
  a rule that had no pattern the array has as many elements as there were calls. The
  member of each object is the pattern's strategy tag with the pattern's value, both as
  the encoder writes them: unchanged when they are valid UTF-8, and with every other
  byte replaced by U+FFFD.
\<close>

theorem body_patterns_in_call_order:
  assumes "document (foldl WithBodyPattern s ms) = Some doc" and "ms \<noteq> []"
  shows "bodyPatterns (request (WithBodyPattern s m)) = bodyPatterns (request s) @ [m] \<and>
         (\<exists>req arr. member doc ''request'' = Some req \<and>
           member req ''bodyPatterns'' = Some (JArray arr) \<and>
           arr = map (\<lambda>m. JObject [(coerce (ParamMatcher_Strategy m),
                                     JString (coerce (ParamMatcher_Value m)))])
                   (bodyPatterns (request s) @ ms) \<and>
           length arr = length (bodyPatterns (request s)) + length ms \<and>
           ((\<forall>m\<in>set (bodyPatterns (request s) @ ms).
                valid_utf8 (ParamMatcher_Strategy m) \<and> valid_utf8 (ParamMatcher_Value m)) \<longrightarrow>
            arr = map (\<lambda>m. JObject [(ParamMatcher_Strategy m, JString (ParamMatcher_Value m))])
                    (bodyPatterns (request s) @ ms)))"
proof -
  let ?s = "foldl WithBodyPattern s ms"
  from assms(1) obtain u where
    r: "member doc ''request'' = Some (JObject (written (request_json (request ?s) u)))"
    by (rule request_members)
  have b: "bodyPatterns (request ?s) = bodyPatterns (request s) @ ms"
    by (simp add: foldl_WithBodyPattern)
  have m: "matcher_json = (\<lambda>m. JObject [(coerce (ParamMatcher_Strategy m),
                                     JString (coerce (ParamMatcher_Value m)))])"
    by (rule ext) (simp add: matcher_json_def)
  have a: "bodyPatterns (request (WithBodyPattern s m)) = bodyPatterns (request s) @ [m]"
    by (simp add: WithBodyPattern_def)
  have l: "member (JObject (written (request_json (request ?s) u))) ''bodyPatterns'' =
           Some (JArray (map matcher_json (bodyPatterns (request s) @ ms)))"
    unfolding member_written_ascii [OF ascii_keys(2)] bodyPatterns_member b
    using assms(2) by simp
  have v: "map matcher_json ps =
           map (\<lambda>m. JObject [(ParamMatcher_Strategy m, JString (ParamMatcher_Value m))]) ps"
    if "\<forall>m\<in>set ps. valid_utf8 (ParamMatcher_Strategy m) \<and> valid_utf8 (ParamMatcher_Value m)"
    for ps
    using that by (simp add: matcher_json_def valid_utf8_coerce)
  from r l a v [of "bodyPatterns (request s) @ ms"] show ?thesis
    unfolding m [symmetric] by auto
qed

theorem body_patterns_in_call_order_witness:
  "list_all (\<lambda>m. valid_utf8 (ParamMatcher_Strategy m) \<and> valid_utf8 (ParamMatcher_Value m))
     [EqualTo ''a'', Contains ''b'', EqualTo ''a''] \<and>
   document (foldl WithBodyPattern (Get (URLEqualTo ''/''))
       [EqualTo ''a'', Contains ''b'', EqualTo ''a'']) =
     Some (JObject
       [(''request'', JObject
           [(''bodyPatterns'', JArray
               [JObject [(''equalTo'', JString ''a'')],
                JObject [(''contains'', JString ''b'')],
                JObject [(''equalTo'', JString ''a'')]]),
            (''method'', JString ''GET''), (''url'', JString ''/'')]),
        (''response'', JObject [(''status'', JNumber 200)])]) \<and>
   (\<exists>req arr. member (JObject
       [(''request'', JObject
           [(''bodyPatterns'', JArray
               [JObject [(''equalTo'', JString ''a'')],
                JObject [(''contains'', JString ''b'')],
                JObject [(''equalTo'', JString ''a'')]]),
            (''method'', JString ''GET''), (''url'', JString ''/'')]),
        (''response'', JObject [(''status'', JNumber 200)])]) ''request'' = Some req \<and>
      member req ''bodyPatterns'' = Some (JArray arr) \<and> length arr = 3 \<and>
      arr = [JObject [(''equalTo'', JString ''a'')], JObject [(''contains'', JString ''b'')],
             JObject [(''equalTo'', JString ''a'')]])"
proof -
  let ?d = "JObject
       [(''request'', JObject
           [(''bodyPatterns'', JArray
               [JObject [(''equalTo'', JString ''a'')],
                JObject [(''contains'', JString ''b'')],
                JObject [(''equalTo'', JString ''a'')]]),
            (''method'', JString ''GET''), (''url'', JString ''/'')]),
        (''response'', JObject [(''status'', JNumber 200)])]"
  have d: "document (foldl WithBodyPattern (Get (URLEqualTo ''/''))
       [EqualTo ''a'', Contains ''b'', EqualTo ''a'']) = Some ?d"
    by code_simp
  have e: "bodyPatterns (request (Get (URLEqualTo ''/''))) = []"
    by (simp add: Get_def NewStubRule_def)
  have n: "[EqualTo ''a'', Contains ''b'', EqualTo ''a''] \<noteq> []"
    by simp
  have v: "list_all (\<lambda>m. valid_utf8 (ParamMatcher_Strategy m) \<and> valid_utf8 (ParamMatcher_Value m))
     [EqualTo ''a'', Contains ''b'', EqualTo ''a'']"
    by code_simp
  have f: "ParamMatcher_Strategy (EqualTo ''a'') = ''equalTo''"
    "ParamMatcher_Value (EqualTo ''a'') = ''a''"
    "ParamMatcher_Strategy (Contains ''b'') = ''contains''"
    "ParamMatcher_Value (Contains ''b'') = ''b''"
    by (simp_all add: ParamMatcher_Strategy_def ParamMatcher_Value_def EqualTo_def Contains_def
        ParamEqualTo_def ParamContains_def)
  from body_patterns_in_call_order [OF d n] v
  have "\<exists>req arr. member ?d ''request'' = Some req \<and>
      member req ''bodyPatterns'' = Some (JArray arr) \<and> length arr = 3 \<and>
      arr = [JObject [(''equalTo'', JString ''a'')], JObject [(''contains'', JString ''b'')],
             JObject [(''equalTo'', JString ''a'')]]"
    unfolding e by (auto simp: f)
  with d v show ?thesis by simp
qed

text \<open>
  C6 as stated fails: after \<^verbatim>\<open>WithBodyPattern(EqualTo("\xc3"))\<close> on
  \<^verbatim>\<open>Get(URLEqualTo("/"))\<close>, where the value is the single byte C3, the one element of
  \<^verbatim>\<open>bodyPatterns\<close> maps \<^verbatim>\<open>equalTo\<close> to U+FFFD, which is not the matcher's value.
\<close>

theorem body_pattern_value_counterexample:
  "document (WithBodyPattern (Get (URLEqualTo ''/'')) (EqualTo [CHR 0xC3])) =
     Some (JObject
       [(''request'', JObject
           [(''bodyPatterns'', JArray [JObject [(''equalTo'', JString [CHR 0xEF, CHR 0xBF, CHR 0xBD])]]),
            (''method'', JString ''GET''), (''url'', JString ''/'')]),
        (''response'', JObject [(''status'', JNumber 200)])]) \<and>
   ParamMatcher_Value (EqualTo [CHR 0xC3]) = [CHR 0xC3] \<and>
   JString [CHR 0xEF, CHR 0xBF, CHR 0xBD] \<noteq> JString [CHR 0xC3]"
  by code_simp

subsection \<open>C7: method and URL members of the request object\<close>

text \<open>
  C7, as amended. For every rule that serializes and whose URL matcher has one of the
  four URL strategy tags, the request object has the member \<^verbatim>\<open>method\<close> with the rule's
  method, and a member named by the URL matcher's strategy tag with the matcher's value,
  method and value as the encoder writes them: unchanged when they are valid UTF-8, and
  with every other byte replaced by U+FFFD.
\<close>

theorem request_method_and_url_members:
  assumes "document s = Some doc" and "urlMatcher (request s) = Some u"
    and "URLMatcher_Strategy u \<in>
           {URLEqualToRule, URLPathEqualToRule, URLPathMatchingRule, URLMatchingRule}"
  shows "\<exists>req. member doc ''request'' = Some req \<and>
           member req ''method'' = Some (JString (coerce (method (request s)))) \<and>
           member req (URLMatcher_Strategy u) = Some (JString (coerce (URLMatcher_Value u))) \<and>
           (valid_utf8 (method (request s)) \<longrightarrow>
              member req ''method'' = Some (JString (method (request s)))) \<and>
           (valid_utf8 (URLMatcher_Value u) \<longrightarrow>
              member req (URLMatcher_Strategy u) = Some (JString (URLMatcher_Value u)))"
proof -
  from assms(1) obtain u' where "urlMatcher (request s) = Some u'"
    and r: "member doc ''request'' = Some (JObject (written (request_json (request s) u')))"
    by (rule request_members)
  with assms(2) have u: "u' = u" by simp
  note t = url_tags_not_reserved [OF assms(3)]
  have "member (JObject (written (request_json (request s) u))) ''method'' =
          Some (JString (coerce (method (request s))))"
    unfolding member_written_ascii [OF ascii_keys(1)] using t
    by (auto simp: request_json_def fmlookup_put_opt)
  moreover have "member (JObject (written (request_json (request s) u))) (URLMatcher_Strategy u) =
          Some (JString (coerce (URLMatcher_Value u)))"
    unfolding member_written_ascii [OF t(6)] using t
    by (auto simp: request_json_def fmlookup_put_opt)
  ultimately show ?thesis using r u
    by (auto simp: valid_utf8_coerce)
qed

theorem request_method_and_url_members_witness:
  "document (Put (URLPathMatching ''/p/.*'')) =
     Some (JObject
       [(''request'', JObject
           [(''method'', JString ''PUT''), (''urlPathPattern'', JString ''/p/.*'')]),
        (''response'', JObject [(''status'', JNumber 200)])]) \<and>
   urlMatcher (request (Put (URLPathMatching ''/p/.*''))) = Some (URLPathMatching ''/p/.*'') \<and>
   URLMatcher_Strategy (URLPathMatching ''/p/.*'') = ''urlPathPattern'' \<and>
   valid_utf8 ''PUT'' \<and> valid_utf8 ''/p/.*'' \<and>
   (\<exists>req. member (JObject
       [(''request'', JObject
           [(''method'', JString ''PUT''), (''urlPathPattern'', JString ''/p/.*'')]),
        (''response'', JObject [(''status'', JNumber 200)])]) ''request'' = Some req \<and>
      member req ''method'' = Some (JString ''PUT'') \<and>
      member req ''urlPathPattern'' = Some (JString ''/p/.*''))"
proof -
  let ?d = "JObject
       [(''request'', JObject
           [(''method'', JString ''PUT''), (''urlPathPattern'', JString ''/p/.*'')]),
        (''response'', JObject [(''status'', JNumber 200)])]"
  have d: "document (Put (URLPathMatching ''/p/.*'')) = Some ?d"
    by code_simp
  have u: "urlMatcher (request (Put (URLPathMatching ''/p/.*''))) =
             Some (URLPathMatching ''/p/.*'')"
    by (simp add: Put_def NewStubRule_def)
  have t: "URLMatcher_Strategy (URLPathMatching ''/p/.*'') = ''urlPathPattern''"
    "URLMatcher_Value (URLPathMatching ''/p/.*'') = ''/p/.*''"
    "method (request (Put (URLPathMatching ''/p/.*''))) = ''PUT''"
    by (simp_all add: URLMatcher_Strategy_def URLMatcher_Value_def URLPathMatching_def
        URLPathMatchingRule_def Put_def NewStubRule_def MethodPut_def)
  have v: "valid_utf8 ''PUT''" "valid_utf8 ''/p/.*''"
    by code_simp+
  have s: "URLMatcher_Strategy (URLPathMatching ''/p/.*'') \<in>
     {URLEqualToRule, URLPathEqualToRule, URLPathMatchingRule, URLMatchingRule}"
    by (simp add: URLMatcher_Strategy_def URLPathMatching_def)
  from request_method_and_url_members [OF d u s] d u t v show ?thesis
    by auto
qed

text \<open>
  C7 as stated fails: \<^verbatim>\<open>NewStubRule("\xff", URLEqualTo("/"))\<close>, whose method is the
  single byte FF, serializes to a document whose request object maps \<^verbatim>\<open>method\<close> to
  U+FFFD, which is not the rule's method.
\<close>

theorem method_counterexample:
  "document (NewStubRule [CHR 0xFF] (URLEqualTo ''/'')) =
     Some (JObject
       [(''request'', JObject
           [(''method'', JString [CHR 0xEF, CHR 0xBF, CHR 0xBD]), (''url'', JString ''/'')]),
        (''response'', JObject [(''status'', JNumber 200)])]) \<and>
   method (request (NewStubRule [CHR 0xFF] (URLEqualTo ''/''))) = [CHR 0xFF] \<and>
   JString [CHR 0xEF, CHR 0xBF, CHR 0xBD] \<noteq> JString [CHR 0xFF]"
  by code_simp

subsection \<open>C8: matcher constructors\<close>

text \<open>
  C8. For each of the twelve matcher constructors and every string \<open>v\<close>, the matcher it
  builds returns \<open>v\<close> from \<^verbatim>\<open>Value()\<close> and the constructor's own strategy constant
  from \<^verbatim>\<open>Strategy()\<close>.
\<close>

theorem matcher_constructors_round_trip:
  "URLMatcher_Value (URLEqualTo v) = v \<and>
   URLMatcher_Strategy (URLEqualTo v) = URLEqualToRule \<and>
   URLMatcher_Value (URLPathEqualTo v) = v \<and>
   URLMatcher_Strategy (URLPathEqualTo v) = URLPathEqualToRule \<and>
   URLMatcher_Value (URLPathMatching v) = v \<and>
   URLMatcher_Strategy (URLPathMatching v) = URLPathMatchingRule \<and>
   URLMatcher_Value (URLMatching v) = v \<and>
   URLMatcher_Strategy (URLMatching v) = URLMatchingRule \<and>
   ParamMatcher_Value (EqualTo v) = v \<and>
   ParamMatcher_Strategy (EqualTo v) = ParamEqualTo \<and>
   ParamMatcher_Value (Matching v) = v \<and>
   ParamMatcher_Strategy (Matching v) = ParamMatches \<and>
   ParamMatcher_Value (Contains v) = v \<and>
   ParamMatcher_Strategy (Contains v) = ParamContains \<and>
   ParamMatcher_Value (EqualToXml v) = v \<and>
   ParamMatcher_Strategy (EqualToXml v) = ParamEqualToXml \<and>
   ParamMatcher_Value (EqualToJson v) = v \<and>
   ParamMatcher_Strategy (EqualToJson v) = ParamEqualToJson \<and>
   ParamMatcher_Value (MatchingXPath v) = v \<and>
   ParamMatcher_Strategy (MatchingXPath v) = ParamMatchesXPath \<and>
   ParamMatcher_Value (MatchingJsonPath v) = v \<and>
   ParamMatcher_Strategy (MatchingJsonPath v) = ParamMatchesJsonPath \<and>
   ParamMatcher_Value (NotMatching v) = v \<and>
   ParamMatcher_Strategy (NotMatching v) = ParamDoesNotMatch"
  by (simp add: URLMatcher_Value_def URLMatcher_Strategy_def ParamMatcher_Value_def
      ParamMatcher_Strategy_def URLEqualTo_def URLPathEqualTo_def URLPathMatching_def
      URLMatching_def EqualTo_def Matching_def Contains_def EqualToXml_def EqualToJson_def
      MatchingXPath_def MatchingJsonPath_def NotMatching_def)

subsection \<open>C9: serialization does not change the rule\<close>

text \<open>
  C9. \<^verbatim>\<open>MarshalJSON\<close> leaves the rule behind its receiver as it was, whatever its result:
  the rule after the call equals the rule before it, field by field. Serializing again
  therefore gives the same result.
\<close>

theorem MarshalJSON_leaves_rule_unchanged:
  "snd (MarshalJSON s) = s \<and>
   fst (MarshalJSON (snd (MarshalJSON s))) = fst (MarshalJSON s)"
  by (simp add: MarshalJSON_snd)

subsection \<open>C10: serialization of rules built through the public functions\<close>

text \<open>
  C10, as amended. For every rule built by \<^verbatim>\<open>NewStubRule\<close> followed by any sequence of
  builder calls with any strings and integers, in which every matcher interface argument
  answers (it is a \<^verbatim>\<open>ParamMatcher\<close>, a pointer to one that is not nil, or a value of
  another type whose \<^verbatim>\<open>Strategy()\<close> and \<^verbatim>\<open>Value()\<close> return), \<^verbatim>\<open>MarshalJSON\<close> returns a
  document and no error.
\<close>

theorem built_rules_serialize:
  assumes "\<forall>c\<in>set cs. passes_matcher c"
  shows "\<exists>doc. fst (MarshalJSON (build meth um cs)) = Inr doc"
proof -
  from assms have n: "serializable (request (build meth um cs))"
    by (rule serializable_build)
  then obtain u where "urlMatcher (request (build meth um cs)) = Some u"
    by (auto simp: serializable_def)
  from MarshalJSON_ok [OF this n] show ?thesis by blast
qed

theorem built_rules_serialize_witness:
  "list_all passes_matcher
     [CallWithHeader ''X'' (ParamMatcherValue (EqualTo ''a'')),
      CallWithCookie ''Y'' (ParamMatcherPointer (Some (Matching ''c''))),
      CallWithQueryParam ''q'' (OtherImplementation (Some ''equalTo'') (Some ''d'')),
      CallWithBodyPattern (Contains ''b''), CallWillReturn ''ok'' None 0, CallAtPriority 0] \<and>
   (\<exists>doc. fst (MarshalJSON (build ''POST'' (URLEqualTo ''/'')
     [CallWithHeader ''X'' (ParamMatcherValue (EqualTo ''a'')),
      CallWithCookie ''Y'' (ParamMatcherPointer (Some (Matching ''c''))),
      CallWithQueryParam ''q'' (OtherImplementation (Some ''equalTo'') (Some ''d'')),
      CallWithBodyPattern (Contains ''b''), CallWillReturn ''ok'' None 0, CallAtPriority 0])) = Inr doc)"
proof -
  have h: "\<forall>c\<in>set [CallWithHeader ''X'' (ParamMatcherValue (EqualTo ''a'')),
      CallWithCookie ''Y'' (ParamMatcherPointer (Some (Matching ''c''))),
      CallWithQueryParam ''q'' (OtherImplementation (Some ''equalTo'') (Some ''d'')),
      CallWithBodyPattern (Contains ''b''), CallWillReturn ''ok'' None 0, CallAtPriority 0].
      passes_matcher c"
    by (simp add: answers_def)
  from built_rules_serialize [OF h, of "''POST''" "URLEqualTo ''/''"] h show ?thesis
    by (simp add: answers_def)
qed

text \<open>
  C10 as stated fails: \<^verbatim>\<open>WithHeader("X", nil)\<close> is a builder call the types admit, and
  so is \<^verbatim>\<open>WithHeader("X", p)\<close> with a nil pointer \<^verbatim>\<open>p\<close> of type \<^verbatim>\<open>*ParamMatcher\<close>, which
  is a non-nil interface value. On the rule either leaves, \<^verbatim>\<open>MarshalJSON\<close> panics in
  \<^verbatim>\<open>mapFrom\<close>, where the loop over the headers calls \<^verbatim>\<open>Strategy()\<close> on the matcher.
\<close>

theorem nil_matcher_counterexample:
  "fst (MarshalJSON (build ''GET'' (URLEqualTo ''/'') [CallWithHeader ''X'' NilInterface])) =
     Inl Panic \<and>
   fst (MarshalJSON (build ''GET'' (URLEqualTo ''/'')
          [CallWithHeader ''X'' (ParamMatcherPointer None)])) =
     Inl Panic"
  by code_simp

end
